theory Spec2Isabelle
  imports Complex_Main
begin

section \<open>Python values, exceptions and dictionaries\<close>

text \<open>
  The agent (\<^verbatim>\<open>src/systemagent/systemagent.py\<close>) passes untyped Python dictionaries
  between its methods. Values are modelled by \<open>pyval\<close>; a finite Python float is the
  rational number it denotes (comparisons between ints and floats are exact in Python),
  non-finite floats are not modelled. Strings are lists of characters (code points below
  256), dictionaries are association lists in insertion order with string keys. A raised
  exception is the \<open>Inl\<close> branch of a sum. The case conversions \<^verbatim>\<open>str.lower()\<close> and
  \<^verbatim>\<open>str.upper()\<close> follow the Unicode tables of the interpreter, which are no part of
  the repository: the methods that call them take them as parameters.
\<close>

datatype exn =
    TypeError
  | AttributeError
  | KeyError string
  | IndexError
  | PsutilAccessDenied
  | PsutilError
  | FileNotFoundError
  | PermissionError
  | TimeoutExpired
  | CalledProcessError int string string
  | OtherException

datatype pyval =
    PNone
  | PBool bool
  | PInt int
  | PFloat rat
  | PStr string
  | PList "pyval list"
  | PTuple "pyval list"
  | PDict "(string \<times> pyval) list"

text \<open>A description is a literal text, or an f-string kept as its template and the
  values interpolated into it.\<close>

datatype descr = Text string | Fmt string "pyval list"

section \<open>Exceptions as values\<close>

text \<open>Sequencing of statements that may raise: the first exception ends the block.\<close>

definition ebind :: "exn + 'a \<Rightarrow> ('a \<Rightarrow> exn + 'b) \<Rightarrow> exn + 'b" where
  "ebind m f = (case m of Inl e \<Rightarrow> Inl e | Inr x \<Rightarrow> f x)"

text \<open>The class name of an exception (\<^verbatim>\<open>type(e).__name__\<close>). The message text of an
  exception is not modelled: \<open>exn_text e\<close> stands for \<^verbatim>\<open>str(e)\<close>.\<close>

definition exn_name :: "exn \<Rightarrow> string" where
  "exn_name e =
     (case e of
        TypeError \<Rightarrow> ''TypeError''
      | AttributeError \<Rightarrow> ''AttributeError''
      | KeyError k \<Rightarrow> ''KeyError''
      | IndexError \<Rightarrow> ''IndexError''
      | PsutilAccessDenied \<Rightarrow> ''AccessDenied''
      | PsutilError \<Rightarrow> ''Error''
      | FileNotFoundError \<Rightarrow> ''FileNotFoundError''
      | PermissionError \<Rightarrow> ''PermissionError''
      | TimeoutExpired \<Rightarrow> ''TimeoutExpired''
      | CalledProcessError rc out err \<Rightarrow> ''CalledProcessError''
      | OtherException \<Rightarrow> ''Exception'')"

definition exn_text :: "exn \<Rightarrow> string" where
  "exn_text e = exn_name e"

text \<open>\<^verbatim>\<open>isinstance(e, psutil.Error)\<close>\<close>

definition is_psutil_error :: "exn \<Rightarrow> bool" where
  "is_psutil_error e = (e = PsutilAccessDenied \<or> e = PsutilError)"

section \<open>Operations on Python values\<close>

text \<open>Truth value of an object (\<^verbatim>\<open>not s\<close>, \<^verbatim>\<open>if c\<close>, \<^verbatim>\<open>x or y\<close>).\<close>

definition truthy :: "pyval \<Rightarrow> bool" where
  "truthy v =
     (case v of
        PNone \<Rightarrow> False
      | PBool b \<Rightarrow> b
      | PInt i \<Rightarrow> i \<noteq> 0
      | PFloat r \<Rightarrow> r \<noteq> 0
      | PStr s \<Rightarrow> s \<noteq> []
      | PList xs \<Rightarrow> xs \<noteq> []
      | PTuple xs \<Rightarrow> xs \<noteq> []
      | PDict kvs \<Rightarrow> kvs \<noteq> [])"

text \<open>The number a bool, an int or a float denotes.\<close>

definition num_of :: "pyval \<Rightarrow> rat option" where
  "num_of v =
     (case v of
        PBool b \<Rightarrow> Some (if b then 1 else 0)
      | PInt i \<Rightarrow> Some (of_int i)
      | PFloat r \<Rightarrow> Some r
      | _ \<Rightarrow> None)"

text \<open>\<^verbatim>\<open>v > t\<close> and \<^verbatim>\<open>v < t\<close> against a number \<open>t\<close>: \<^verbatim>\<open>TypeError\<close> unless
  \<open>v\<close> is a number too.\<close>

definition py_gt :: "pyval \<Rightarrow> rat \<Rightarrow> exn + bool" where
  "py_gt v t = (case num_of v of None \<Rightarrow> Inl TypeError | Some x \<Rightarrow> Inr (x > t))"

definition py_lt :: "pyval \<Rightarrow> rat \<Rightarrow> exn + bool" where
  "py_lt v t = (case num_of v of None \<Rightarrow> Inl TypeError | Some x \<Rightarrow> Inr (x < t))"

text \<open>\<^verbatim>\<open>c * 1.5\<close>: a sequence or a dict times a float is a \<^verbatim>\<open>TypeError\<close>. Float
  arithmetic is taken as exact.\<close>

definition py_mul :: "pyval \<Rightarrow> rat \<Rightarrow> exn + rat" where
  "py_mul v k = (case num_of v of None \<Rightarrow> Inl TypeError | Some x \<Rightarrow> Inr (x * k))"

text \<open>\<^verbatim>\<open>round(x, 2)\<close>: to the nearest hundredth, ties to even; an int is returned as an
  int.\<close>

definition round2 :: "rat \<Rightarrow> rat" where
  "round2 x =
     (let y = x * 100; f = \<lfloor>y\<rfloor>; d = y - of_int f;
          n = (if d < 1/2 then f else if d > 1/2 then f + 1 else if even f then f else f + 1)
      in of_int n / 100)"

definition py_round2 :: "pyval \<Rightarrow> exn + pyval" where
  "py_round2 v =
     (case v of
        PBool b \<Rightarrow> Inr (PInt (if b then 1 else 0))
      | PInt i \<Rightarrow> Inr (PInt i)
      | PFloat r \<Rightarrow> Inr (PFloat (round2 r))
      | _ \<Rightarrow> Inl TypeError)"

text \<open>\<^verbatim>\<open>s.get(k, d)\<close> and \<^verbatim>\<open>s[k]\<close> for a string key: only a dict has \<^verbatim>\<open>get\<close>;
  subscripting a list, a tuple or a string with a string, or anything else at all, is a
  \<^verbatim>\<open>TypeError\<close>.\<close>

definition dict_get :: "pyval \<Rightarrow> string \<Rightarrow> pyval \<Rightarrow> exn + pyval" where
  "dict_get s k d =
     (case s of
        PDict kvs \<Rightarrow> (case map_of kvs k of None \<Rightarrow> Inr d | Some v \<Rightarrow> Inr v)
      | _ \<Rightarrow> Inl AttributeError)"

definition getitem :: "pyval \<Rightarrow> string \<Rightarrow> exn + pyval" where
  "getitem s k =
     (case s of
        PDict kvs \<Rightarrow> (case map_of kvs k of None \<Rightarrow> Inl (KeyError k) | Some v \<Rightarrow> Inr v)
      | _ \<Rightarrow> Inl TypeError)"

text \<open>\<^verbatim>\<open>x[0]\<close>\<close>

definition index0 :: "pyval \<Rightarrow> exn + pyval" where
  "index0 x =
     (case x of
        PList xs \<Rightarrow> (case xs of [] \<Rightarrow> Inl IndexError | y # _ \<Rightarrow> Inr y)
      | PTuple xs \<Rightarrow> (case xs of [] \<Rightarrow> Inl IndexError | y # _ \<Rightarrow> Inr y)
      | PStr cs \<Rightarrow> (case cs of [] \<Rightarrow> Inl IndexError | c # _ \<Rightarrow> Inr (PStr [c]))
      | PDict kvs \<Rightarrow> Inl (KeyError ''0'')
      | _ \<Rightarrow> Inl TypeError)"

text \<open>\<^verbatim>\<open>d[k] = v\<close> on a dictionary kept in insertion order.\<close>

fun setitem :: "(string \<times> 'v) list \<Rightarrow> string \<Rightarrow> 'v \<Rightarrow> (string \<times> 'v) list" where
  "setitem [] k v = [(k, v)]"
| "setitem ((k', v') # kvs) k v = (if k' = k then (k, v) # kvs else (k', v') # setitem kvs k v)"

section \<open>Strings\<close>

text \<open>Characters that \<^verbatim>\<open>str.strip()\<close> removes, among the code points below 256.\<close>

definition is_space :: "char \<Rightarrow> bool" where
  "is_space c =
     (let n = (of_char c :: nat)
      in (9 \<le> n \<and> n \<le> 13) \<or> (28 \<le> n \<and> n \<le> 32) \<or> n = 133 \<or> n = 160)"

definition strip :: "string \<Rightarrow> string" where
  "strip s = rev (dropWhile is_space (rev (dropWhile is_space s)))"

text \<open>Lower-casing of the ASCII letters, with which \<^verbatim>\<open>str.lower()\<close> agrees on ASCII
  strings; it serves as \<^verbatim>\<open>str.lower()\<close> on the hosts of the evaluations, whose names
  are ASCII.\<close>

definition ascii_lower_char :: "char \<Rightarrow> char" where
  "ascii_lower_char c =
     (case map_of (zip ''ABCDEFGHIJKLMNOPQRSTUVWXYZ'' ''abcdefghijklmnopqrstuvwxyz'') c of
        None \<Rightarrow> c
      | Some d \<Rightarrow> d)"

definition ascii_lower :: "string \<Rightarrow> string" where
  "ascii_lower s = map ascii_lower_char s"

text \<open>\<^verbatim>\<open>str(n)\<close> for an int.\<close>

fun str_nat :: "nat \<Rightarrow> string" where
  "str_nat n =
     (if n < 10 then [''0123456789'' ! n]
      else str_nat (n div 10) @ [''0123456789'' ! (n mod 10)])"

definition str_int :: "int \<Rightarrow> string" where
  "str_int i = (if i < 0 then CHR ''-'' # str_nat (nat (- i)) else str_nat (nat i))"

section \<open>Command executor\<close>

text \<open>
  What the operating system answers to \<^verbatim>\<open>_run_subprocess\<close>: the effective user id,
  \<^verbatim>\<open>shutil.which\<close>, and what \<^verbatim>\<open>Popen\<close> followed by \<^verbatim>\<open>communicate\<close> does with the
  final command list, the shell flag, the input and the timeout. The child either exits
  with a return code, its stdout and its stderr; or runs past the timeout; or launching
  it or communicating with it raises an exception \<open>e\<close> whose \<^verbatim>\<open>str(e)\<close> is the given
  text. After a timeout the \<^verbatim>\<open>except\<close> clause calls \<^verbatim>\<open>process.kill()\<close> and
  \<^verbatim>\<open>process.communicate()\<close> once more: the kill raises (the child keeps running), or
  the child is killed and the second \<^verbatim>\<open>communicate()\<close> raises, or it collects the
  child's stdout and stderr.
\<close>

datatype after_timeout =
    KillRaised exn
  | CollectRaised exn
  | Collected string string

datatype child =
    Exited int string string
  | TimedOut after_timeout
  | Failed exn string

text \<open>One entry of \<^verbatim>\<open>psutil.process_iter([...])\<close>: the \<^verbatim>\<open>info\<close> dictionary of a
  process; an attribute psutil could not read is \<^verbatim>\<open>None\<close>.\<close>

record pinfo =
  p_pid :: int
  p_name :: "string option"
  p_cpu_percent :: "rat option"
  p_username :: "string option"
  p_create_time :: "rat option"

text \<open>
  The host as the agent observes it. Besides the three fields above:
  \<open>connect h p t\<close> is the exception, if any, of
  \<^verbatim>\<open>socket.create_connection((h, p), timeout=t)\<close>; \<open>has_sensors\<close> is
  \<^verbatim>\<open>hasattr(psutil, "sensors_temperatures")\<close>; \<open>process_iter\<close> is the process table
  (or the exception of reading it); \<open>time_at i\<close> is \<^verbatim>\<open>time.time()\<close> as read while the
  \<open>i\<close>-th process of a loop is examined; \<open>zombie_iter\<close> is the pids of the zombie
  processes; \<open>isdir\<close> is \<^verbatim>\<open>os.path.isdir\<close>; \<open>str_lower\<close> is the interpreter's
  \<^verbatim>\<open>str.lower()\<close>.
\<close>

record os_env =
  euid :: nat
  which :: "string \<Rightarrow> string option"
  launch :: "string list \<Rightarrow> bool \<Rightarrow> string option \<Rightarrow> int \<Rightarrow> child"
  connect :: "string \<Rightarrow> int \<Rightarrow> int \<Rightarrow> exn option"
  has_sensors :: bool
  process_iter :: "exn + pinfo list"
  time_at :: "nat \<Rightarrow> rat"
  zombie_iter :: "exn + int list"
  isdir :: "string \<Rightarrow> bool"
  str_lower :: "string \<Rightarrow> string"

text \<open>The returned pair \<^verbatim>\<open>(success, output)\<close>, and whether \<^verbatim>\<open>process.kill()\<close>
  was called on the child.\<close>

record cmd_result =
  succeeded :: bool
  out_text :: string
  child_killed :: bool

definition returns :: "bool \<Rightarrow> string \<Rightarrow> cmd_result" where
  "returns ok out = \<lparr>succeeded = ok, out_text = out, child_killed = False\<rparr>"

text \<open>\<^verbatim>\<open>not path\<close> for the result of \<^verbatim>\<open>shutil.which\<close>.\<close>

definition no_path :: "string option \<Rightarrow> bool" where
  "no_path p = (case p of None \<Rightarrow> True | Some s \<Rightarrow> s = [])"

text \<open>
  Lines 388--395: the sudo prefix and the resolution of the command. The result is an
  early return (\<open>Inl\<close>) or the command list handed to \<^verbatim>\<open>Popen\<close> (\<open>Inr\<close>);
  \<^verbatim>\<open>command_list[0]\<close> on an empty list raises \<^verbatim>\<open>IndexError\<close> outside the
  \<^verbatim>\<open>try\<close>.
\<close>

definition prepare_command ::
  "os_env \<Rightarrow> string list \<Rightarrow> bool \<Rightarrow> bool \<Rightarrow> exn + (cmd_result + string list)" where
  "prepare_command env command_list use_sudo shell =
     (let sudo_path = which env ''sudo'' in
      if use_sudo \<and> euid env \<noteq> 0 \<and> no_path sudo_path
      then Inr (Inl (returns False ''sudo not found''))
      else
        let cl = (if use_sudo \<and> euid env \<noteq> 0 then the sudo_path # command_list
                  else command_list)
        in case cl of
             [] \<Rightarrow> Inl IndexError
           | c # rest \<Rightarrow>
               let cmd_path = which env c in
               if no_path cmd_path \<and> \<not> shell
               then Inr (Inl (returns False (''Command not found: '' @ c)))
               else if \<not> shell \<and> \<not> no_path cmd_path then Inr (Inr (the cmd_path # rest))
               else Inr (Inr cl))"

text \<open>
  The body of the \<^verbatim>\<open>try\<close> (lines 398--404): a zero return code returns success with
  the combined output; a non-zero one raises \<^verbatim>\<open>CalledProcessError\<close> when \<open>check\<close>
  is set and returns failure otherwise. A timeout or a launch failure is an exception.
\<close>

definition combined_output :: "string \<Rightarrow> string \<Rightarrow> string" where
  "combined_output out err = strip (strip out @ [CHR 0x0A] @ strip err)"

definition try_body :: "child \<Rightarrow> bool \<Rightarrow> exn + cmd_result" where
  "try_body ch check =
     (case ch of
        Exited rc out err \<Rightarrow>
          if rc = 0 then Inr (returns True (combined_output out err))
          else if check then Inl (CalledProcessError rc out err)
          else Inr (returns False (combined_output out err))
      | TimedOut a \<Rightarrow> Inl TimeoutExpired
      | Failed e msg \<Rightarrow> Inl e)"

text \<open>
  The \<^verbatim>\<open>except\<close> clauses (lines 405--408), in the source's order. An exception of
  the body is turned into a returned failure, unless the clause itself raises: the one for
  \<^verbatim>\<open>TimeoutExpired\<close> calls \<^verbatim>\<open>process.kill()\<close> and \<^verbatim>\<open>process.communicate()\<close>,
  and an exception of either leaves \<^verbatim>\<open>_run_subprocess\<close> (if \<^verbatim>\<open>Popen\<close> itself raised
  \<^verbatim>\<open>TimeoutExpired\<close>, \<^verbatim>\<open>process\<close> is unbound there).
\<close>

definition handlers :: "child \<Rightarrow> string list \<Rightarrow> exn \<Rightarrow> exn + cmd_result" where
  "handlers ch cl e =
     (case e of
        FileNotFoundError \<Rightarrow> Inr (returns False (''Cmd not found: '' @ hd cl))
      | TimeoutExpired \<Rightarrow>
          (case ch of
             TimedOut (KillRaised x) \<Rightarrow> Inl x
           | TimedOut (CollectRaised x) \<Rightarrow> Inl x
           | TimedOut (Collected out err) \<Rightarrow>
               Inr \<lparr>succeeded = False, out_text = ''Cmd timed out. Stderr: '' @ strip err,
                    child_killed = True\<rparr>
           | _ \<Rightarrow> Inl OtherException)
      | CalledProcessError rc out err \<Rightarrow> Inr (returns False (strip err))
      | _ \<Rightarrow> Inr (returns False (case ch of Failed _ msg \<Rightarrow> msg | _ \<Rightarrow> [])))"

text \<open>\<^verbatim>\<open>_run_subprocess(command_list, check, use_sudo, shell, input_str, timeout_sec)\<close>\<close>

definition run_subprocess ::
  "os_env \<Rightarrow> string list \<Rightarrow> bool \<Rightarrow> bool \<Rightarrow> bool \<Rightarrow> string option \<Rightarrow> int \<Rightarrow> exn + cmd_result" where
  "run_subprocess env command_list check use_sudo shell input_str timeout_sec =
     (case prepare_command env command_list use_sudo shell of
        Inl e \<Rightarrow> Inl e
      | Inr (Inl r) \<Rightarrow> Inr r
      | Inr (Inr cl) \<Rightarrow>
          let ch = launch env cl shell input_str timeout_sec in
          (case try_body ch check of
             Inr r \<Rightarrow> Inr r
           | Inl e \<Rightarrow> handlers ch cl e))"

text \<open>Hosts used to evaluate the executor: a quiet one on which every command
  succeeds; one on which every child exits with return code 1 after writing to both
  streams; one on which every child outlives its timeout having written to stdout only
  and is killed; one on which every child outlives its timeout and the agent may not kill
  it (a child running under \<^verbatim>\<open>sudo\<close> belongs to root).\<close>

definition host_which :: "string \<Rightarrow> string option" where
  "host_which c =
     (if c = ''sudo'' \<or> c = ''/usr/bin/sudo'' then Some ''/usr/bin/sudo''
      else if c = ''false'' then Some ''/bin/false''
      else if c = ''sleep'' then Some ''/bin/sleep''
      else if c = ''kill'' then Some ''/bin/kill''
      else None)"

definition host_quiet :: os_env where
  "host_quiet =
     \<lparr>euid = 1000, which = host_which,
      launch = (\<lambda>cl sh inp t. Exited 0 [] []),
      connect = (\<lambda>h p t. None), has_sensors = True, process_iter = Inr [],
      time_at = (\<lambda>i. 1000), zombie_iter = Inr [], isdir = (\<lambda>p. True),
      str_lower = ascii_lower\<rparr>"

definition host_exit1 :: os_env where
  "host_exit1 = host_quiet\<lparr>launch := (\<lambda>cl sh inp t. Exited 1 ''partial out'' ''boom'')\<rparr>"



section \<open>Configuration validator\<close>

text \<open>A schema entry: \<^verbatim>\<open>{"type": ..., "min": ..., "max": ..., "enum": [...]}\<close> with
  the last three optional.\<close>

datatype ptype = TInt | TFloat | TStr | TBool | TList

record schema =
  s_type :: ptype
  s_min :: "rat option"
  s_max :: "rat option"
  s_enum :: "string list option"

definition entry :: "ptype \<Rightarrow> rat option \<Rightarrow> rat option \<Rightarrow> schema" where
  "entry ty lo hi = \<lparr>s_type = ty, s_min = lo, s_max = hi, s_enum = None\<rparr>"

text \<open>\<^verbatim>\<open>CONFIG_SCHEMA\<close>\<close>

definition CONFIG_SCHEMA :: "(string \<times> schema) list" where
  "CONFIG_SCHEMA =
     [(''monitor_interval'', entry TInt (Some 10) None),
      (''log_level'', \<lparr>s_type = TStr, s_min = None, s_max = None,
                       s_enum = Some [''DEBUG'', ''INFO'', ''WARNING'', ''ERROR'', ''CRITICAL'']\<rparr>),
      (''log_file'', entry TStr None None),
      (''cpu_threshold'', entry TFloat (Some 0) (Some 100)),
      (''memory_threshold'', entry TFloat (Some 0) (Some 100)),
      (''disk_threshold'', entry TFloat (Some 0) (Some 100)),
      (''swap_threshold'', entry TFloat (Some 0) (Some 100)),
      (''zombie_threshold'', entry TInt (Some 0) None),
      (''temp_alert_threshold'', entry TFloat None None),
      (''network_connectivity_host'', entry TStr None None),
      (''network_connectivity_port'', entry TInt (Some 1) (Some 65535)),
      (''network_connectivity_timeout'', entry TInt (Some 1) None),
      (''cpu_permit_man_update'', entry TFloat (Some 0) (Some 100)),
      (''mandb_min_interval_hours'', entry TInt (Some 1) None),
      (''email_alerts_enabled'', entry TBool None None),
      (''email_recipient'', entry TStr None None),
      (''email_sender'', entry TStr None None),
      (''smtp_host'', entry TStr None None),
      (''smtp_port'', entry TInt (Some 1) (Some 65535)),
      (''ollama_enabled'', entry TBool None None),
      (''ollama_host'', entry TStr None None),
      (''ollama_model'', entry TStr None None),
      (''ollama_init_timeout_seconds'', entry TInt (Some 10) None),
      (''self_healing_enabled'', entry TBool None None),
      (''self_heal_cpu_enabled'', entry TBool None None),
      (''self_heal_cpu_threshold'', entry TFloat (Some 0) (Some 100)),
      (''self_heal_cpu_kill_limit'', entry TInt (Some 0) None),
      (''self_heal_cpu_exclude_procs'', entry TList None None),
      (''self_heal_memory_enabled'', entry TBool None None),
      (''self_heal_memory_clear_caches'', entry TBool None None),
      (''self_heal_processes_enabled'', entry TBool None None),
      (''self_heal_processes_cleanup_zombies'', entry TBool None None),
      (''self_heal_disk_enabled'', entry TBool None None),
      (''self_heal_disk_log_path'', entry TStr None None),
      (''self_heal_disk_log_max_age_days'', entry TInt (Some 1) None),
      (''self_heal_disk_tmp_path'', entry TStr None None),
      (''self_heal_disk_tmp_max_age_days'', entry TInt (Some 1) None),
      (''self_heal_network_enabled'', entry TBool None None),
      (''self_heal_network_service_names'', entry TList None None)]"

text \<open>The \<^verbatim>\<open>defaults\<close> dictionary; \<open>ollama_available\<close> is \<^verbatim>\<open>OLLAMA_AVAILABLE\<close>.\<close>

definition defaults :: "bool \<Rightarrow> (string \<times> pyval) list" where
  "defaults ollama_available =
     [(''monitor_interval'', PInt 60), (''log_level'', PStr ''INFO''),
      (''log_file'', PStr ''/var/log/aion/system_agent.log''),
      (''cpu_threshold'', PFloat 85), (''memory_threshold'', PFloat 90),
      (''disk_threshold'', PFloat 85), (''swap_threshold'', PFloat 75),
      (''zombie_threshold'', PInt 10),
      (''temp_alert_threshold'', PFloat 80), (''network_connectivity_host'', PStr ''8.8.8.8''),
      (''network_connectivity_port'', PInt 53), (''network_connectivity_timeout'', PInt 3),
      (''cpu_permit_man_update'', PFloat 50), (''mandb_min_interval_hours'', PInt 6),
      (''email_alerts_enabled'', PBool False), (''email_recipient'', PStr []),
      (''email_sender'', PStr ''system-agent@aion.chroot.localhost''),
      (''smtp_host'', PStr ''localhost''), (''smtp_port'', PInt 25),
      (''ollama_enabled'', PBool ollama_available),
      (''ollama_host'', PStr ''http://127.0.0.1:11434''), (''ollama_model'', PStr ''gemma:2b''),
      (''ollama_init_timeout_seconds'', PInt 180),
      (''self_healing_enabled'', PBool True),
      (''self_heal_cpu_enabled'', PBool False), (''self_heal_cpu_threshold'', PFloat 95),
      (''self_heal_cpu_kill_limit'', PInt 2),
      (''self_heal_cpu_exclude_procs'',
         PList (map PStr [''systemd'', ''kthreadd'', ''sshd'', ''rsyslogd'', ''journald'',
           ''dbus-daemon'', ''login'', ''agetty'', ''containerd'', ''dockerd'', ''kubelet'',
           ''supervisord'', ''python'', ''aion_system_agent'', ''ollama''])),
      (''self_heal_memory_enabled'', PBool True), (''self_heal_memory_clear_caches'', PBool True),
      (''self_heal_processes_enabled'', PBool True),
      (''self_heal_processes_cleanup_zombies'', PBool True),
      (''self_heal_disk_enabled'', PBool True), (''self_heal_disk_log_path'', PStr ''/var/log''),
      (''self_heal_disk_log_max_age_days'', PInt 30), (''self_heal_disk_tmp_path'', PStr ''/tmp''),
      (''self_heal_disk_tmp_max_age_days'', PInt 7),
      (''self_heal_network_enabled'', PBool False),
      (''self_heal_network_service_names'',
         PList (map PStr [''networking'', ''NetworkManager'', ''systemd-networkd'']))]"

text \<open>\<^verbatim>\<open>isinstance(value, expected_type)\<close>; Python's \<^verbatim>\<open>bool\<close> is a subclass of
  \<^verbatim>\<open>int\<close>.\<close>

definition isinstance :: "pyval \<Rightarrow> ptype \<Rightarrow> bool" where
  "isinstance v ty =
     (case (ty, v) of
        (TInt, PInt i) \<Rightarrow> True
      | (TInt, PBool b) \<Rightarrow> True
      | (TFloat, PFloat r) \<Rightarrow> True
      | (TStr, PStr s) \<Rightarrow> True
      | (TBool, PBool b) \<Rightarrow> True
      | (TList, PList xs) \<Rightarrow> True
      | _ \<Rightarrow> False)"

definition is_str :: "pyval \<Rightarrow> bool" where
  "is_str v = (case v of PStr s \<Rightarrow> True | _ \<Rightarrow> False)"

text \<open>\<^verbatim>\<open>d.get(key)\<close>\<close>

definition cfg_get :: "(string \<times> pyval) list \<Rightarrow> string \<Rightarrow> pyval" where
  "cfg_get d key = (case map_of d key of None \<Rightarrow> PNone | Some v \<Rightarrow> v)"

text \<open>
  The checks of one \<^verbatim>\<open>for key, schema in CONFIG_SCHEMA.items()\<close> iteration: \<open>True\<close>
  when \<^verbatim>\<open>valid\<close> stays set. The \<^verbatim>\<open>elif\<close> chain hangs off the type test
  \<^verbatim>\<open>if not isinstance(value, expected_type)\<close>, so it runs only for a value of exactly
  the expected type. In \<^verbatim>\<open>CONFIG_SCHEMA\<close> only numeric settings have a minimum or a
  maximum and only a string setting has an enum, so the comparisons are between numbers and
  \<^verbatim>\<open>str(value).upper()\<close> is taken of a string; \<open>upper\<close> is the interpreter's
  \<^verbatim>\<open>str.upper()\<close>.
\<close>

definition field_valid :: "(string \<Rightarrow> string) \<Rightarrow> schema \<Rightarrow> pyval \<Rightarrow> bool" where
  "field_valid upper sch v =
     (if \<not> isinstance v (s_type sch)
      then s_type sch = TFloat \<and> isinstance v TInt
      else if (case (s_min sch, num_of v) of (Some lo, Some x) \<Rightarrow> x < lo | _ \<Rightarrow> False) then False
      else if (case (s_max sch, num_of v) of (Some hi, Some x) \<Rightarrow> x > hi | _ \<Rightarrow> False) then False
      else if (case (s_enum sch, v) of (Some allowed, PStr x) \<Rightarrow> upper x \<notin> set allowed | _ \<Rightarrow> False)
      then False
      else if s_type sch = TList \<and> \<not> isinstance v TList then False
      else if s_type sch = TList \<and> (case v of PList xs \<Rightarrow> \<not> list_all is_str xs | _ \<Rightarrow> False)
      then False
      else True)"

text \<open>One iteration: the merged value, or the default when the key is missing or
  \<^verbatim>\<open>null\<close>; the default again when a check fails.\<close>

definition validate_field ::
  "(string \<Rightarrow> string) \<Rightarrow> (string \<times> pyval) list \<Rightarrow> (string \<times> pyval) list \<Rightarrow> string \<Rightarrow> schema \<Rightarrow>
   pyval" where
  "validate_field upper dflt cfg key sch =
     (let v0 = cfg_get cfg key;
          v = (if v0 = PNone then cfg_get dflt key else v0)
      in if field_valid upper sch v then v else cfg_get dflt key)"

text \<open>\<^verbatim>\<open>config.update(loaded_config)\<close>\<close>

definition dict_update :: "(string \<times> pyval) list \<Rightarrow> (string \<times> pyval) list \<Rightarrow> (string \<times> pyval) list" where
  "dict_update d new = fold (\<lambda>(k, v) acc. setitem acc k v) new d"

text \<open>\<^verbatim>\<open>[p.lower() for p in xs]\<close> when the value is a list (of strings, after
  validation).\<close>

definition lower_all :: "(string \<Rightarrow> string) \<Rightarrow> pyval \<Rightarrow> pyval" where
  "lower_all lower v =
     (case v of
        PList xs \<Rightarrow> PList (map (\<lambda>x. case x of PStr t \<Rightarrow> PStr (lower t) | y \<Rightarrow> y) xs)
      | w \<Rightarrow> w)"

text \<open>
  \<^verbatim>\<open>_load_and_validate_config()\<close>. \<open>loaded\<close> is the JSON object read from the
  configuration file, \<open>None\<close> when the file is missing, unreadable or not JSON (the
  defaults are used then). A top-level JSON value that is not an object is not modelled.
  \<open>lower\<close> and \<open>upper\<close> are the interpreter's \<^verbatim>\<open>str.lower()\<close> and
  \<^verbatim>\<open>str.upper()\<close>.
\<close>

definition load_and_validate_config ::
  "(string \<Rightarrow> string) \<Rightarrow> (string \<Rightarrow> string) \<Rightarrow> bool \<Rightarrow> (string \<times> pyval) list option \<Rightarrow>
   (string \<times> pyval) list" where
  "load_and_validate_config lower upper ollama_available loaded =
     (let dflt = defaults ollama_available;
          cfg = (case loaded of None \<Rightarrow> dflt | Some l \<Rightarrow> dict_update dflt l);
          v1 = map (\<lambda>(key, sch). (key, validate_field upper dflt cfg key sch)) CONFIG_SCHEMA;
          v2 = (if truthy (cfg_get v1 ''email_alerts_enabled'') \<and>
                   \<not> truthy (cfg_get v1 ''email_recipient'')
                then setitem v1 ''email_alerts_enabled'' (PBool False) else v1);
          v3 = (if \<not> ollama_available \<and> truthy (cfg_get v2 ''ollama_enabled'')
                then setitem v2 ''ollama_enabled'' (PBool False) else v2)
      in setitem v3 ''self_heal_cpu_exclude_procs''
           (lower_all lower (cfg_get v3 ''self_heal_cpu_exclude_procs'')))"

section \<open>Health results\<close>

text \<open>\<^verbatim>\<open>{"type": ..., "value": ..., "description": ...}\<close>; the \<^verbatim>\<open>DIAG_ERROR\<close> issue
  built by \<^verbatim>\<open>diagnose_system\<close> has no \<^verbatim>\<open>"value"\<close> key.\<close>

record issue =
  i_type :: string
  i_value :: "pyval option"
  i_description :: descr

text \<open>\<^verbatim>\<open>{"status": ..., "issues": [...]}\<close>\<close>

record health =
  status :: string
  issues :: "issue list"

text \<open>\<^verbatim>\<open>_create_health_result\<close>: \<^verbatim>\<open>issues or []\<close> is the list itself when given.\<close>

definition create_health_result :: "string \<Rightarrow> issue list \<Rightarrow> health" where
  "create_health_result st iss = \<lparr>status = st, issues = iss\<rparr>"

text \<open>\<^verbatim>\<open>sev_map = {"NOMINAL":0, "WARNING": 1, "CRITICAL": 2, "ERROR": 3}\<close>\<close>

definition sev_map :: "string \<Rightarrow> nat option" where
  "sev_map s =
     (if s = ''NOMINAL'' then Some 0
      else if s = ''WARNING'' then Some 1
      else if s = ''CRITICAL'' then Some 2
      else if s = ''ERROR'' then Some 3
      else None)"

text \<open>\<^verbatim>\<open>sev_map.get(s, 0)\<close>\<close>

definition sev_get :: "string \<Rightarrow> nat" where
  "sev_get s = (case sev_map s of Some n \<Rightarrow> n | None \<Rightarrow> 0)"

text \<open>\<^verbatim>\<open>_add_issue(health, type, val, desc, sev)\<close>: append the issue, then replace the
  status when the new severity ranks strictly higher.\<close>

definition add_issue :: "health \<Rightarrow> string \<Rightarrow> pyval \<Rightarrow> descr \<Rightarrow> string \<Rightarrow> health" where
  "add_issue h ty val desc sev =
     (let h1 = h\<lparr>issues := issues h @ [\<lparr>i_type = ty, i_value = Some val, i_description = desc\<rparr>]\<rparr>;
          cs = status h1
      in if sev_get sev > sev_get cs then h1\<lparr>status := sev\<rparr> else h1)"

section \<open>Validated configuration\<close>

text \<open>
  The settings the modelled methods read from \<^verbatim>\<open>self.config\<close>. A numeric setting is
  held by the number it denotes (validation lets an int or a bool stand where a float is
  declared, and Python compares and computes with them by value).
\<close>

record config =
  monitor_interval :: int
  cpu_threshold :: rat
  memory_threshold :: rat
  disk_threshold :: rat
  swap_threshold :: rat
  zombie_threshold :: int
  temp_alert_threshold :: rat
  network_connectivity_host :: string
  network_connectivity_port :: int
  network_connectivity_timeout :: int
  self_healing_enabled :: bool
  self_heal_cpu_enabled :: bool
  self_heal_cpu_threshold :: rat
  self_heal_cpu_kill_limit :: int
  self_heal_cpu_exclude_procs :: "string list"
  self_heal_memory_enabled :: bool
  self_heal_memory_clear_caches :: bool
  self_heal_processes_enabled :: bool
  self_heal_processes_cleanup_zombies :: bool
  self_heal_disk_enabled :: bool
  self_heal_disk_log_path :: string
  self_heal_disk_log_max_age_days :: int
  self_heal_disk_tmp_path :: string
  self_heal_disk_tmp_max_age_days :: int
  self_heal_network_enabled :: bool
  self_heal_network_service_names :: "string list"

text \<open>The \<^verbatim>\<open>defaults\<close> of \<^verbatim>\<open>_load_and_validate_config\<close>, for the settings of
  \<open>config\<close>.\<close>

definition default_config :: config where
  "default_config =
     \<lparr>monitor_interval = 60,
      cpu_threshold = 85, memory_threshold = 90, disk_threshold = 85, swap_threshold = 75,
      zombie_threshold = 10, temp_alert_threshold = 80,
      network_connectivity_host = ''8.8.8.8'', network_connectivity_port = 53,
      network_connectivity_timeout = 3,
      self_healing_enabled = True,
      self_heal_cpu_enabled = False, self_heal_cpu_threshold = 95,
      self_heal_cpu_kill_limit = 2,
      self_heal_cpu_exclude_procs =
        [''systemd'', ''kthreadd'', ''sshd'', ''rsyslogd'', ''journald'', ''dbus-daemon'',
         ''login'', ''agetty'', ''containerd'', ''dockerd'', ''kubelet'', ''supervisord'',
         ''python'', ''aion_system_agent'', ''ollama''],
      self_heal_memory_enabled = True, self_heal_memory_clear_caches = True,
      self_heal_processes_enabled = True, self_heal_processes_cleanup_zombies = True,
      self_heal_disk_enabled = True, self_heal_disk_log_path = ''/var/log'',
      self_heal_disk_log_max_age_days = 30, self_heal_disk_tmp_path = ''/tmp'',
      self_heal_disk_tmp_max_age_days = 7,
      self_heal_network_enabled = False,
      self_heal_network_service_names = [''networking'', ''NetworkManager'', ''systemd-networkd'']\<rparr>"

section \<open>Domain checks\<close>

text \<open>The statement \<^verbatim>\<open>if s.get(k,0) > t: h = self._add_issue(h, ty, s[k], desc, sev)\<close>
  that the cpu, memory, disk and process checks repeat.\<close>

definition check_above ::
  "health \<Rightarrow> pyval \<Rightarrow> string \<Rightarrow> rat \<Rightarrow> string \<Rightarrow> descr \<Rightarrow> string \<Rightarrow> exn + health" where
  "check_above h s k t ty desc sev =
     ebind (dict_get s k (PInt 0)) (\<lambda>v.
     ebind (py_gt v t) (\<lambda>above.
     if above then ebind (getitem s k) (\<lambda>x. Inr (add_issue h ty x desc sev))
     else Inr h))"

text \<open>\<^verbatim>\<open>_diagnose_cpu\<close>\<close>

definition diagnose_cpu :: "config \<Rightarrow> pyval \<Rightarrow> exn + health" where
  "diagnose_cpu cfg s =
     (let h = create_health_result ''NOMINAL'' []; t = cpu_threshold cfg in
      if \<not> truthy s then Inr (add_issue h ''MISSING'' (PInt 0) (Text ''CPU data'') ''ERROR'')
      else
        ebind (check_above h s ''percent'' t ''HIGH_CPU'' (Fmt ''> {}%'' [PFloat t]) ''CRITICAL'') (\<lambda>h.
        ebind (dict_get s ''cores_logical'' PNone) (\<lambda>c.
        ebind (dict_get s ''load_avg_1m_5m_15m'' (PList [PInt 0])) (\<lambda>la.
        ebind (index0 la) (\<lambda>l.
        if truthy c then
          ebind (py_mul c (3/2)) (\<lambda>m.
          ebind (case num_of l of None \<Rightarrow> Inl TypeError | Some x \<Rightarrow> Inr (x > m)) (\<lambda>high.
          if high then
            ebind (py_round2 l) (\<lambda>r.
            Inr (add_issue h ''HIGH_LOAD'' r (Text ''Load > 1.5x cores'') ''WARNING''))
          else Inr h))
        else Inr h)))))"

text \<open>\<^verbatim>\<open>_diagnose_memory\<close>\<close>

definition diagnose_memory :: "config \<Rightarrow> pyval \<Rightarrow> exn + health" where
  "diagnose_memory cfg s =
     (let h = create_health_result ''NOMINAL'' [];
          vt = memory_threshold cfg; st = swap_threshold cfg in
      if \<not> truthy s then Inr (add_issue h ''MISSING'' (PInt 0) (Text ''Mem data'') ''ERROR'')
      else
        ebind (check_above h s ''virtual_percent'' vt ''HIGH_MEM''
                 (Fmt ''> {}%'' [PFloat vt]) ''CRITICAL'') (\<lambda>h.
        check_above h s ''swap_percent'' st ''HIGH_SWAP'' (Fmt ''> {}%'' [PFloat st]) ''WARNING''))"

text \<open>\<^verbatim>\<open>_diagnose_disk\<close>; the description's \<^verbatim>\<open>s.get('path','?')\<close> raises exactly
  when \<^verbatim>\<open>s.get("percent",0)\<close> does, so it is read first.\<close>

definition diagnose_disk :: "config \<Rightarrow> pyval \<Rightarrow> exn + health" where
  "diagnose_disk cfg s =
     (let h = create_health_result ''NOMINAL'' []; t = disk_threshold cfg in
      if \<not> truthy s then Inr (add_issue h ''MISSING'' (PInt 0) (Text ''Disk data'') ''ERROR'')
      else
        ebind (dict_get s ''path'' (PStr ''?'')) (\<lambda>path.
        check_above h s ''percent'' t ''LOW_DISK''
          (Fmt ''Disk '{}' > {}%'' [path, PFloat t]) ''CRITICAL''))"

text \<open>\<^verbatim>\<open>_diagnose_processes\<close>\<close>

definition diagnose_processes :: "config \<Rightarrow> pyval \<Rightarrow> exn + health" where
  "diagnose_processes cfg s =
     (let h = create_health_result ''NOMINAL'' []; t = zombie_threshold cfg in
      if \<not> truthy s then Inr (add_issue h ''MISSING'' (PInt 0) (Text ''Proc data'') ''ERROR'')
      else check_above h s ''zombie'' (of_int t) ''ZOMBIES''
             (Fmt ''> {} zombies'' [PInt t]) ''WARNING'')"

text \<open>\<^verbatim>\<open>a.get(k1,0) > t or a.get(k2,0) > t\<close>: the second comparison is evaluated only
  when the first is false.\<close>

definition either_above :: "pyval \<Rightarrow> string \<Rightarrow> string \<Rightarrow> rat \<Rightarrow> exn + bool" where
  "either_above counters k1 k2 t =
     ebind (dict_get counters k1 (PInt 0)) (\<lambda>a.
     ebind (py_gt a t) (\<lambda>first.
     if first then Inr True
     else ebind (dict_get counters k2 (PInt 0)) (\<lambda>b. py_gt b t)))"

text \<open>\<^verbatim>\<open>{"in": counters.get(k1), "out": counters.get(k2)}\<close>\<close>

definition in_out :: "pyval \<Rightarrow> string \<Rightarrow> string \<Rightarrow> exn + pyval" where
  "in_out counters k1 k2 =
     ebind (dict_get counters k1 PNone) (\<lambda>a.
     ebind (dict_get counters k2 PNone) (\<lambda>b.
     Inr (PDict [(''in'', a), (''out'', b)])))"

text \<open>\<^verbatim>\<open>_diagnose_network\<close>: missing data only when \<^verbatim>\<open>s is None\<close>; then the
  connectivity probe, then the error and drop counters against 100 and 1000.\<close>

definition diagnose_network :: "config \<Rightarrow> os_env \<Rightarrow> pyval \<Rightarrow> exn + health" where
  "diagnose_network cfg env s =
     (let h = create_health_result ''NOMINAL'' [] in
      if s = PNone
      then Inr (add_issue h ''MISSING'' (PInt 0) (Text ''Net data(Collection Error)'') ''ERROR'')
      else
        let ch = network_connectivity_host cfg; cp = network_connectivity_port cfg;
            ct = network_connectivity_timeout cfg;
            h = (case connect env ch cp ct of
                   None \<Rightarrow> h
                 | Some e \<Rightarrow>
                     add_issue h ''NET_CONNECT'' (PInt 0)
                       (Fmt ''No reach {}:{} ({})'' [PStr ch, PInt cp, PStr (exn_name e)])
                       ''CRITICAL'')
        in
        ebind (dict_get s ''network_counters'' (PDict [])) (\<lambda>counters.
        ebind (either_above counters ''errin'' ''errout'' 100) (\<lambda>errs.
        ebind (if errs
               then ebind (in_out counters ''errin'' ''errout'') (\<lambda>v.
                    Inr (add_issue h ''NET_ERRORS'' v (Text ''High NIC errors'') ''WARNING''))
               else Inr h) (\<lambda>h.
        ebind (either_above counters ''dropin'' ''dropout'' 1000) (\<lambda>drops.
        if drops
        then ebind (in_out counters ''dropin'' ''dropout'') (\<lambda>v.
             Inr (add_issue h ''NET_DROPS'' v (Text ''High NIC drops'') ''WARNING''))
        else Inr h)))))"

text \<open>\<^verbatim>\<open>[{"s":n,"t":tv} for n,tv in s.items() if tv>t]\<close>\<close>

fun high_temps :: "(string \<times> pyval) list \<Rightarrow> rat \<Rightarrow> exn + pyval list" where
  "high_temps [] t = Inr []"
| "high_temps ((n, tv) # kvs) t =
     ebind (py_gt tv t) (\<lambda>hot.
     ebind (high_temps kvs t) (\<lambda>rest.
     Inr (if hot then PDict [(''s'', PStr n), (''t'', tv)] # rest else rest)))"

text \<open>\<^verbatim>\<open>_diagnose_temperature\<close>\<close>

definition diagnose_temperature :: "config \<Rightarrow> os_env \<Rightarrow> pyval \<Rightarrow> exn + health" where
  "diagnose_temperature cfg env s =
     (let h = create_health_result ''NOMINAL'' []; t = temp_alert_threshold cfg in
      if s = PNone
      then Inr (add_issue h ''MISSING'' (PInt 0) (Text ''Temp data(Collection Error)'') ''ERROR'')
      else if \<not> truthy s \<and> has_sensors env
      then Inr (add_issue h ''MISSING'' (PInt 0) (Text ''Temp read failed'') ''WARNING'')
      else if \<not> truthy s then Inr h
      else
        (case s of
           PDict kvs \<Rightarrow>
             ebind (high_temps kvs t) (\<lambda>ht.
             if ht \<noteq> []
             then Inr (add_issue h ''HIGH_TEMP'' (PList ht)
                         (Fmt ''Sensor(s) > {}C'' [PFloat t]) ''CRITICAL'')
             else Inr h)
         | _ \<Rightarrow> Inl AttributeError))"

section \<open>Diagnostic engine\<close>

text \<open>\<^verbatim>\<open>{"overall_status": ..., "checks": {...}}\<close>; \<open>checks\<close> in insertion order.\<close>

record diagnostics =
  overall_status :: string
  checks :: "(string \<times> health) list"

text \<open>\<^verbatim>\<open>diag_funcs\<close>, in the order of the dictionary literal.\<close>

definition diag_funcs :: "config \<Rightarrow> os_env \<Rightarrow> (string \<times> (pyval \<Rightarrow> exn + health)) list" where
  "diag_funcs cfg env =
     [(''cpu'', diagnose_cpu cfg),
      (''memory'', diagnose_memory cfg),
      (''disk'', diagnose_disk cfg),
      (''processes'', diagnose_processes cfg),
      (''network'', diagnose_network cfg env),
      (''temperature'', diagnose_temperature cfg env)]"

text \<open>\<^verbatim>\<open>state.get(key)\<close> on the snapshot dictionary.\<close>

definition state_get :: "(string \<times> pyval) list \<Rightarrow> string \<Rightarrow> pyval" where
  "state_get state key = (case map_of state key of None \<Rightarrow> PNone | Some v \<Rightarrow> v)"

text \<open>
  The \<^verbatim>\<open>for key, func in diag_funcs.items()\<close> loop of \<^verbatim>\<open>diagnose_system\<close>. The loop
  state is the diagnostics dictionary and the \<^verbatim>\<open>issues\<close> flag. A check that returns
  \<^verbatim>\<open>ERROR\<close> ends the loop (\<^verbatim>\<open>break\<close>); a check that raises is recorded as
  \<^verbatim>\<open>ERROR\<close> by the \<^verbatim>\<open>except\<close> clause, which has no \<^verbatim>\<open>break\<close>.
\<close>

fun diagnose_loop ::
  "(string \<times> (pyval \<Rightarrow> exn + health)) list \<Rightarrow> (string \<times> pyval) list \<Rightarrow>
   diagnostics \<times> bool \<Rightarrow> diagnostics \<times> bool" where
  "diagnose_loop [] state (d, iss) = (d, iss)"
| "diagnose_loop ((key, func) # rest) state (d, iss) =
     (case func (state_get state key) of
        Inr r \<Rightarrow>
          let d1 = d\<lparr>checks := setitem (checks d) key r\<rparr>; st = status r in
          if st = ''ERROR'' then (d1\<lparr>overall_status := ''ERROR''\<rparr>, True)
          else if st = ''CRITICAL''
          then diagnose_loop rest state (d1\<lparr>overall_status := ''CRITICAL''\<rparr>, True)
          else if st = ''WARNING'' \<and> overall_status d1 = ''NOMINAL''
          then diagnose_loop rest state (d1\<lparr>overall_status := ''WARNING''\<rparr>, True)
          else diagnose_loop rest state (d1, iss)
      | Inl e \<Rightarrow>
          let r = create_health_result ''ERROR''
                    [\<lparr>i_type = ''DIAG_ERROR'', i_value = None,
                      i_description = Text (exn_text e)\<rparr>]
          in diagnose_loop rest state
               (d\<lparr>checks := setitem (checks d) key r, overall_status := ''ERROR''\<rparr>, True))"

text \<open>\<^verbatim>\<open>diagnose_system(state)\<close>: the returned diagnostics, and whether
  \<^verbatim>\<open>_alert_if_needed\<close> sends an alert (\<^verbatim>\<open>issues\<close> set and the overall status not
  \<^verbatim>\<open>NOMINAL\<close>).\<close>

definition diagnose_system :: "config \<Rightarrow> os_env \<Rightarrow> (string \<times> pyval) list \<Rightarrow> diagnostics" where
  "diagnose_system cfg env state =
     fst (diagnose_loop (diag_funcs cfg env) state
            (\<lparr>overall_status = ''NOMINAL'', checks = []\<rparr>, False))"

definition diagnose_alerts :: "config \<Rightarrow> os_env \<Rightarrow> (string \<times> pyval) list \<Rightarrow> bool" where
  "diagnose_alerts cfg env state =
     (let (d, iss) = diagnose_loop (diag_funcs cfg env) state
                       (\<lparr>overall_status = ''NOMINAL'', checks = []\<rparr>, False)
      in iss \<and> overall_status d \<noteq> ''NOMINAL'')"

section \<open>Data collection\<close>

text \<open>
  What \<^verbatim>\<open>psutil\<close> and \<^verbatim>\<open>os\<close> answer during one call of \<^verbatim>\<open>get_system_state\<close>,
  one field for each statement of its \<^verbatim>\<open>try\<close> block that reads the host; a reading is
  a value or the exception raised instead. \<open>r_temperatures\<close> is the dictionary
  \<^verbatim>\<open>_get_temperatures\<close> returns (that method catches its own exceptions).
\<close>

record cpu_details =
  percent_user :: rat
  percent_system :: rat
  percent_idle :: rat
  percent_wait :: rat
  cores_logical :: "int option"
  cores_physical :: "int option"
  load_avg :: "rat \<times> rat \<times> rat"

record memory_reading =
  mem_total :: int
  mem_available :: int
  mem_percent :: rat
  swap_total :: int
  swap_used :: int
  swap_percent :: rat

record disk_reading =
  disk_total :: int
  disk_used :: int
  disk_free :: int
  disk_percent :: rat
  disk_io :: "(int \<times> int \<times> int \<times> int) option"

record net_io =
  bytes_sent :: int
  bytes_recv :: int
  packets_sent :: int
  packets_recv :: int
  errin :: int
  errout :: int
  dropin :: int
  dropout :: int

record readings =
  r_timestamp :: string
  r_cpu_percent :: "exn + rat"
  r_cpu_details :: "exn + cpu_details"
  r_memory :: "exn + memory_reading"
  r_disk :: "exn + disk_reading"
  r_monotonic :: rat
  r_net_io :: "exn + net_io"
  r_net_connections :: "exn + (nat \<times> nat)"
  r_pids :: "exn + nat"
  r_zombies :: "exn + nat"
  r_temperatures :: "(string \<times> rat) list"
  r_uptime :: "exn + rat"

text \<open>The two fields of the agent that \<^verbatim>\<open>get_system_state\<close> carries from one cycle to
  the next.\<close>

record agent =
  last_net_io_counters :: "net_io option"
  last_net_collection_time :: "rat option"

definition opt_int :: "int option \<Rightarrow> pyval" where
  "opt_int v = (case v of None \<Rightarrow> PNone | Some i \<Rightarrow> PInt i)"

text \<open>\<^verbatim>\<open>round(n / (1024**3), 2)\<close> and \<^verbatim>\<open>round(n / (1024**2), 2)\<close>\<close>

definition gb :: "int \<Rightarrow> pyval" where
  "gb n = PFloat (round2 (of_int n / 1024 ^ 3))"

definition mb :: "int \<Rightarrow> pyval" where
  "mb n = PFloat (round2 (of_int n / 1024 ^ 2))"

definition cpu_dict :: "rat \<Rightarrow> cpu_details \<Rightarrow> pyval" where
  "cpu_dict p c =
     PDict [(''percent'', PFloat p),
            (''percent_user'', PFloat (percent_user c)),
            (''percent_system'', PFloat (percent_system c)),
            (''percent_idle'', PFloat (percent_idle c)),
            (''percent_wait'', PFloat (percent_wait c)),
            (''cores_logical'', opt_int (cores_logical c)),
            (''cores_physical'', opt_int (cores_physical c)),
            (''load_avg_1m_5m_15m'',
               (case load_avg c of (a, b, d) \<Rightarrow> PTuple [PFloat a, PFloat b, PFloat d]))]"

definition memory_dict :: "memory_reading \<Rightarrow> pyval" where
  "memory_dict m =
     PDict [(''virtual_total_gb'', gb (mem_total m)),
            (''virtual_available_gb'', gb (mem_available m)),
            (''virtual_percent'', PFloat (mem_percent m)),
            (''swap_total_gb'', gb (swap_total m)),
            (''swap_used_gb'', gb (swap_used m)),
            (''swap_percent'', PFloat (swap_percent m))]"

definition disk_dict :: "disk_reading \<Rightarrow> pyval" where
  "disk_dict d =
     PDict [(''path'', PStr ''/''),
            (''total_gb'', gb (disk_total d)),
            (''used_gb'', gb (disk_used d)),
            (''free_gb'', gb (disk_free d)),
            (''percent'', PFloat (disk_percent d)),
            (''io_read_count'',
               (case disk_io d of None \<Rightarrow> PStr ''N/A'' | Some (rc, wc, rb, wb) \<Rightarrow> PInt rc)),
            (''io_write_count'',
               (case disk_io d of None \<Rightarrow> PStr ''N/A'' | Some (rc, wc, rb, wb) \<Rightarrow> PInt wc)),
            (''io_read_mb'',
               (case disk_io d of None \<Rightarrow> mb 0 | Some (rc, wc, rb, wb) \<Rightarrow> mb rb)),
            (''io_write_mb'',
               (case disk_io d of None \<Rightarrow> mb 0 | Some (rc, wc, rb, wb) \<Rightarrow> mb wb))]"

text \<open>\<^verbatim>\<open>network_rate_kBs\<close>: zero unless a previous sample exists (the stored time is
  tested for truth, so a stored \<^verbatim>\<open>0.0\<close> counts as none) and time has advanced.\<close>

definition rate_dict :: "agent \<Rightarrow> rat \<Rightarrow> net_io \<Rightarrow> pyval" where
  "rate_dict ag now n =
     (case (last_net_io_counters ag, last_net_collection_time ag) of
        (Some prev, Some t0) \<Rightarrow>
          if t0 \<noteq> 0 \<and> now - t0 > 0
          then PDict [(''sent'', PFloat (round2 (of_int (bytes_sent n - bytes_sent prev) / (now - t0) / 1024))),
                      (''recv'', PFloat (round2 (of_int (bytes_recv n - bytes_recv prev) / (now - t0) / 1024)))]
          else PDict [(''sent'', PFloat 0), (''recv'', PFloat 0)]
      | _ \<Rightarrow> PDict [(''sent'', PFloat 0), (''recv'', PFloat 0)])"

definition counters_dict :: "net_io \<Rightarrow> pyval" where
  "counters_dict n =
     PDict [(''bytes_sent'', PInt (bytes_sent n)), (''bytes_recv'', PInt (bytes_recv n)),
            (''packets_sent'', PInt (packets_sent n)), (''packets_recv'', PInt (packets_recv n)),
            (''errin'', PInt (errin n)), (''errout'', PInt (errout n)),
            (''dropin'', PInt (dropin n)), (''dropout'', PInt (dropout n))]"

text \<open>The inner \<^verbatim>\<open>try\<close> around \<^verbatim>\<open>psutil.net_connections\<close> catches everything.\<close>

definition connections_dict :: "exn + (nat \<times> nat) \<Rightarrow> pyval" where
  "connections_dict r =
     (case r of
        Inr (l, e) \<Rightarrow> PDict [(''listening'', PInt (int l)), (''established'', PInt (int e))]
      | Inl PsutilAccessDenied \<Rightarrow> PDict [(''error'', PStr ''Access Denied'')]
      | Inl e \<Rightarrow> PDict [(''error'', PStr (exn_text e))])"

text \<open>The two outer \<^verbatim>\<open>except\<close> clauses: the snapshot built so far gets the key
  \<^verbatim>\<open>"error"\<close>.\<close>

definition with_error :: "(string \<times> pyval) list \<Rightarrow> exn \<Rightarrow> (string \<times> pyval) list" where
  "with_error state e =
     setitem state ''error''
       (PStr ((if is_psutil_error e then ''psutil error: '' else ''General error: '') @ exn_text e))"

text \<open>
  \<^verbatim>\<open>get_system_state()\<close>: the statements of the \<^verbatim>\<open>try\<close> block in order, each
  either extending the snapshot or ending the block with its exception. The result is the
  snapshot and the updated agent fields. The source keeps the statements of the network
  sample on one line; the counters are stored in the agent and under
  \<^verbatim>\<open>network_counters\<close> whether or not a previous sample exists.
\<close>

definition get_system_state :: "agent \<Rightarrow> readings \<Rightarrow> (string \<times> pyval) list \<times> agent" where
  "get_system_state ag rd =
     (let s0 = [(''timestamp'', PStr (r_timestamp rd))] in
      case r_cpu_percent rd of Inl e \<Rightarrow> (with_error s0 e, ag) | Inr p \<Rightarrow>
      let s1 = setitem s0 ''cpu'' (PDict [(''percent'', PFloat p)]) in
      case r_cpu_details rd of Inl e \<Rightarrow> (with_error s1 e, ag) | Inr c \<Rightarrow>
      let s2 = setitem s1 ''cpu'' (cpu_dict p c) in
      case r_memory rd of Inl e \<Rightarrow> (with_error s2 e, ag) | Inr m \<Rightarrow>
      let s3 = setitem s2 ''memory'' (memory_dict m) in
      case r_disk rd of Inl e \<Rightarrow> (with_error s3 e, ag) | Inr d \<Rightarrow>
      let s4 = setitem s3 ''disk'' (disk_dict d) in
      case r_net_io rd of Inl e \<Rightarrow> (with_error s4 e, ag) | Inr n \<Rightarrow>
      let s5 = setitem s4 ''network_rate_kBs'' (rate_dict ag (r_monotonic rd) n);
          ag1 = \<lparr>last_net_io_counters = Some n, last_net_collection_time = Some (r_monotonic rd)\<rparr>;
          s6 = setitem s5 ''network_counters'' (counters_dict n);
          s7 = setitem s6 ''network_connections'' (connections_dict (r_net_connections rd)) in
      case r_pids rd of Inl e \<Rightarrow> (with_error s7 e, ag1) | Inr n_pids \<Rightarrow>
      let s8 = setitem s7 ''processes'' (PDict [(''total'', PInt (int n_pids)), (''zombie'', PInt 0)]) in
      case (case r_zombies rd of
              Inr z \<Rightarrow> Inr (setitem s8 ''processes''
                               (PDict [(''total'', PInt (int n_pids)), (''zombie'', PInt (int z))]))
            | Inl e \<Rightarrow> if is_psutil_error e then Inr s8 else Inl e) of
        Inl e \<Rightarrow> (with_error s8 e, ag1) | Inr s9 \<Rightarrow>
      let s10 = setitem s9 ''temperature_celsius''
                  (PDict (map (\<lambda>(k, v). (k, PFloat v)) (r_temperatures rd))) in
      case r_uptime rd of Inl e \<Rightarrow> (with_error s10 e, ag1) | Inr up \<Rightarrow>
      (setitem s10 ''uptime_seconds'' (PFloat up), ag1))"

section \<open>Self-healing\<close>

text \<open>\<^verbatim>\<open>next((i['value'] for i in cpu_diag['issues'] if i['type'] == 'HIGH_CPU_USAGE'), 0)\<close>\<close>

fun next_value :: "issue list \<Rightarrow> exn + pyval" where
  "next_value [] = Inr (PInt 0)"
| "next_value (i # rest) =
     (if i_type i = ''HIGH_CPU_USAGE''
      then (case i_value i of None \<Rightarrow> Inl (KeyError ''value'') | Some v \<Rightarrow> Inr v)
      else next_value rest)"

text \<open>\<^verbatim>\<open>(pinfo['name'] or 'unknown').lower()\<close>\<close>

definition name_or_unknown :: "pinfo \<Rightarrow> string" where
  "name_or_unknown p =
     (case p_name p of None \<Rightarrow> ''unknown'' | Some n \<Rightarrow> if n = [] then ''unknown'' else n)"

definition proc_name :: "os_env \<Rightarrow> pinfo \<Rightarrow> string" where
  "proc_name env p = str_lower env (name_or_unknown p)"

text \<open>The sort key; after the filter of \<^verbatim>\<open>_heal_cpu\<close> no entry has \<^verbatim>\<open>None\<close> here.\<close>

definition cpu_of :: "pinfo \<Rightarrow> rat" where
  "cpu_of p = (case p_cpu_percent p of None \<Rightarrow> 0 | Some c \<Rightarrow> c)"

text \<open>
  The \<^verbatim>\<open>for proc in procs\<close> loop of \<^verbatim>\<open>_heal_cpu\<close>. \<open>i\<close> counts the processes
  examined, \<open>sel\<close> collects the processes for which the termination is logged and
  \<^verbatim>\<open>kill\<close> is run, \<open>killed\<close> the pids whose \<^verbatim>\<open>kill\<close> succeeded
  (\<^verbatim>\<open>killed_count\<close> is its length). An exception leaves the loop for the
  \<^verbatim>\<open>except\<close> clause of \<^verbatim>\<open>_heal_cpu\<close>.
\<close>

fun kill_loop ::
  "config \<Rightarrow> os_env \<Rightarrow> string set \<Rightarrow> pinfo list \<Rightarrow> nat \<Rightarrow> pinfo list \<Rightarrow> int list \<Rightarrow>
   pinfo list \<times> (exn + int list)" where
  "kill_loop cfg env exclude [] i sel killed = (sel, Inr killed)"
| "kill_loop cfg env exclude (p # ps) i sel killed =
     (if int (length killed) \<ge> self_heal_cpu_kill_limit cfg then (sel, Inr killed)
      else if cpu_of p > cpu_threshold cfg \<and> proc_name env p \<notin> exclude \<and>
              p_username p \<noteq> Some ''root''
      then
        (case p_create_time p of
           None \<Rightarrow> (sel, Inl TypeError)
         | Some created \<Rightarrow>
             if time_at env i - created > 10
             then
               (case run_subprocess env [''kill'', str_int (p_pid p)] False True False None 60 of
                  Inl e \<Rightarrow> (sel @ [p], Inl e)
                | Inr r \<Rightarrow>
                    if succeeded r
                    then kill_loop cfg env exclude ps (Suc i) (sel @ [p]) (killed @ [p_pid p])
                    else kill_loop cfg env exclude ps (Suc i) (sel @ [p]) killed)
             else kill_loop cfg env exclude ps (Suc i) sel killed)
      else kill_loop cfg env exclude ps (Suc i) sel killed)"

text \<open>The action dictionary an \<^verbatim>\<open>except\<close> clause of a healing method builds.\<close>

definition failed_action :: "string \<Rightarrow> exn \<Rightarrow> pyval" where
  "failed_action a e =
     PDict [(''action'', PStr a), (''status'', PStr ''FAILED''), (''error'', PStr (exn_text e))]"

text \<open>
  \<^verbatim>\<open>_heal_cpu(cpu_diag)\<close>. The result is the list of processes selected for
  termination and the returned action (\<^verbatim>\<open>None\<close> or a dictionary); the lookup of the
  issue value and its comparison stand before the \<^verbatim>\<open>try\<close> and may raise.
  \<^verbatim>\<open>sorted(..., reverse=True)\<close> is stable, as is \<open>sort_key\<close> on the negated key.
\<close>

definition heal_cpu :: "config \<Rightarrow> os_env \<Rightarrow> health \<Rightarrow> exn + (pinfo list \<times> pyval)" where
  "heal_cpu cfg env cpu_diag =
     (if \<not> self_heal_cpu_enabled cfg then Inr ([], PNone)
      else
        ebind (next_value (issues cpu_diag)) (\<lambda>cpu_percent.
        ebind (py_lt cpu_percent (self_heal_cpu_threshold cfg)) (\<lambda>below.
        if below then Inr ([], PNone)
        else
          let exclude = set (map (str_lower env) (self_heal_cpu_exclude_procs cfg)) in
          (case process_iter env of
             Inl e \<Rightarrow> Inr ([], failed_action ''MITIGATE_CPU_PRESSURE'' e)
           | Inr ps \<Rightarrow>
               let procs = sort_key (\<lambda>p. - cpu_of p) (filter (\<lambda>p. p_cpu_percent p \<noteq> None) ps)
               in (case kill_loop cfg env exclude procs 0 [] [] of
                     (sel, Inl e) \<Rightarrow> Inr (sel, failed_action ''MITIGATE_CPU_PRESSURE'' e)
                   | (sel, Inr killed) \<Rightarrow>
                       Inr (sel,
                            PDict [(''action'', PStr ''MITIGATE_CPU_PRESSURE''),
                                   (''killed_pids'', PList (map PInt killed)),
                                   (''status'', PStr ''ATTEMPTED''),
                                   (''killed_count'', PInt (int (length killed)))]))))))"

text \<open>\<^verbatim>\<open>_heal_memory()\<close>\<close>

definition heal_memory :: "config \<Rightarrow> os_env \<Rightarrow> exn + pyval" where
  "heal_memory cfg env =
     (if \<not> self_heal_memory_enabled cfg \<or> \<not> self_heal_memory_clear_caches cfg then Inr PNone
      else
        ebind (run_subprocess env [''sh'', ''-c'', ''sync && echo 3 > /proc/sys/vm/drop_caches'']
                 False True True None 60) (\<lambda>r.
        Inr (PDict [(''action'', PStr ''CLEAR_MEMORY_CACHES''),
                    (''status'', PStr (if succeeded r then ''SUCCESS'' else ''FAILED'')),
                    (''details'', PStr (if \<not> succeeded r then out_text r else ''Caches dropped.''))])))"

text \<open>\<^verbatim>\<open>_heal_processes()\<close>; every exception of the \<^verbatim>\<open>try\<close> block becomes a failed
  action.\<close>

definition heal_processes :: "config \<Rightarrow> os_env \<Rightarrow> exn + pyval" where
  "heal_processes cfg env =
     (if \<not> self_heal_processes_enabled cfg \<or> \<not> self_heal_processes_cleanup_zombies cfg
      then Inr PNone
      else
        (case zombie_iter env of
           Inl e \<Rightarrow> Inr (failed_action ''CLEANUP_ZOMBIE_PROCESSES'' e)
         | Inr pids \<Rightarrow>
             if pids = []
             then Inr (PDict [(''action'', PStr ''CLEANUP_ZOMBIE_PROCESSES''),
                              (''status'', PStr ''NO_ACTION_NEEDED'')])
             else
               (case run_subprocess env [''kill'', ''-s'', ''SIGCHLD'', ''1'']
                       False True False None 60 of
                  Inl e \<Rightarrow> Inr (failed_action ''CLEANUP_ZOMBIE_PROCESSES'' e)
                | Inr r \<Rightarrow>
                    Inr (PDict [(''action'', PStr ''CLEANUP_ZOMBIE_PROCESSES''),
                                (''status'', PStr ''SUCCESS''),
                                (''zombies_found'', PList (map PInt pids)),
                                (''sigchld_sent'', PBool (succeeded r))]))))"

text \<open>One item of the \<^verbatim>\<open>for item in items\<close> loop of \<^verbatim>\<open>_heal_disk\<close>: the detail
  dictionary and whether the item succeeded.\<close>

definition heal_disk_item ::
  "os_env \<Rightarrow> string \<Rightarrow> string \<Rightarrow> string \<Rightarrow> string \<Rightarrow> exn + (pyval \<times> bool)" where
  "heal_disk_item env path age ty tf =
     (if isdir env path
      then
        ebind (run_subprocess env
                 [''find'', path, ''-type'', ''f'', tf, ''+'' @ age, ''-print'', ''-delete'']
                 False True False None 60) (\<lambda>r.
        Inr (PDict [(''path'', PStr path), (''age_days'', PStr age),
                    (''success'', PBool (succeeded r)),
                    (''output'', PStr (if \<not> succeeded r then out_text r
                                       else ''Deleted old '' @ ty @ '' files found.''))],
             succeeded r))
      else
        Inr (PDict [(''path'', PStr path), (''age_days'', PStr age),
                    (''success'', PBool False),
                    (''output'', PStr ''Path does not exist/skipped.'')],
             False))"

text \<open>\<^verbatim>\<open>_heal_disk()\<close>\<close>

definition heal_disk :: "config \<Rightarrow> os_env \<Rightarrow> exn + pyval" where
  "heal_disk cfg env =
     (if \<not> self_heal_disk_enabled cfg then Inr PNone
      else
        (case ebind (heal_disk_item env (self_heal_disk_log_path cfg)
                       (str_int (self_heal_disk_log_max_age_days cfg)) ''log'' ''-mtime'') (\<lambda>(d1, ok1).
              ebind (heal_disk_item env (self_heal_disk_tmp_path cfg)
                       (str_int (self_heal_disk_tmp_max_age_days cfg)) ''tmp'' ''-atime'') (\<lambda>(d2, ok2).
              Inr (PDict [(''action'', PStr ''MANAGE_DISK_SPACE''),
                          (''status'', PStr (if ok1 \<and> ok2 then ''SUCCESS'' else ''PARTIAL_FAILURE'')),
                          (''details'', PList [d1, d2])]))) of
           Inl e \<Rightarrow> Inr (failed_action ''MANAGE_DISK_SPACE'' e)
         | Inr a \<Rightarrow> Inr a))"

text \<open>The \<^verbatim>\<open>for service in services\<close> loop of \<^verbatim>\<open>_heal_network\<close>: the services
  attempted, the one restarted and the last error text.\<close>

fun restart_loop ::
  "os_env \<Rightarrow> string list \<Rightarrow> string list \<Rightarrow> string \<Rightarrow> exn + (string list \<times> string option \<times> string)" where
  "restart_loop env [] attempted last_error = Inr (attempted, None, last_error)"
| "restart_loop env (service # rest) attempted last_error =
     ebind (run_subprocess env [''systemctl'', ''restart'', service] False True False None 60) (\<lambda>r.
     if succeeded r then Inr (attempted @ [service], Some service, last_error)
     else restart_loop env rest (attempted @ [service]) (out_text r))"

text \<open>\<^verbatim>\<open>_heal_network()\<close>\<close>

definition heal_network :: "config \<Rightarrow> os_env \<Rightarrow> exn + pyval" where
  "heal_network cfg env =
     (if \<not> self_heal_network_enabled cfg then Inr PNone
      else
        let services = self_heal_network_service_names cfg in
        if services = [] then Inr PNone
        else
          ebind (restart_loop env services [] []) (\<lambda>(attempted, ok, last_error).
          Inr (PDict [(''action'', PStr ''RESTART_NETWORKING''),
                      (''status'', PStr (if ok = None then ''FAILED'' else ''SUCCESS'')),
                      (''services_attempted'', PList (map PStr attempted)),
                      (''success_service'', (case ok of None \<Rightarrow> PNone | Some sv \<Rightarrow> PStr sv)),
                      (''last_error'', PStr last_error)])))"

text \<open>\<^verbatim>\<open>checks[key]\<close>\<close>

definition checks_getitem :: "(string \<times> health) list \<Rightarrow> string \<Rightarrow> exn + health" where
  "checks_getitem cs key = (case map_of cs key of None \<Rightarrow> Inl (KeyError key) | Some h \<Rightarrow> Inr h)"

text \<open>The statement
  \<^verbatim>\<open>if checks[key]["status"] != "NOMINAL": actions.append(healer(...))\<close>.\<close>

definition heal_step ::
  "(string \<times> health) list \<Rightarrow> string \<Rightarrow> (health \<Rightarrow> exn + pyval) \<Rightarrow> pyval list \<Rightarrow> exn + pyval list" where
  "heal_step cs key healer actions =
     ebind (checks_getitem cs key) (\<lambda>h.
     if status h \<noteq> ''NOMINAL'' then ebind (healer h) (\<lambda>a. Inr (actions @ [a]))
     else Inr actions)"

text \<open>
  \<^verbatim>\<open>perform_self_healing(diagnostics)\<close>. \<open>Inr None\<close> is the early return when
  self-healing is disabled, \<open>Inr (Some actions)\<close> the filtered list of actions the
  method logs, \<open>Inl e\<close> an exception leaving the method.
\<close>

definition perform_self_healing ::
  "config \<Rightarrow> os_env \<Rightarrow> diagnostics \<Rightarrow> exn + pyval list option" where
  "perform_self_healing cfg env d =
     (if \<not> self_healing_enabled cfg then Inr None
      else
        let cs = checks d in
        ebind (heal_step cs ''cpu'' (\<lambda>h. ebind (heal_cpu cfg env h) (\<lambda>(sel, a). Inr a)) []) (\<lambda>actions.
        ebind (heal_step cs ''memory'' (\<lambda>h. heal_memory cfg env) actions) (\<lambda>actions.
        ebind (heal_step cs ''processes'' (\<lambda>h. heal_processes cfg env) actions) (\<lambda>actions.
        ebind (heal_step cs ''disk'' (\<lambda>h. heal_disk cfg env) actions) (\<lambda>actions.
        ebind (heal_step cs ''network'' (\<lambda>h. heal_network cfg env) actions) (\<lambda>actions.
        Inr (Some (filter truthy actions))))))))"

section \<open>Supervisor loop\<close>

text \<open>
  What one pass through the body of \<^verbatim>\<open>while self.running\<close> does once
  \<^verbatim>\<open>get_system_state\<close> has returned \<open>state\<close>: the sleep it requests and whether that
  sleep polls the running flag; the diagnostics, if diagnosed; the outcome of the healing
  step, if entered; and the exception the catch-all \<^verbatim>\<open>except Exception\<close> logged, if
  any. The advisor call and the man-db task do not influence these.
\<close>

record cycle =
  sleep_seconds :: rat
  sleep_interruptible :: bool
  cycle_diagnostics :: "diagnostics option"
  cycle_healing :: "(exn + pyval list option) option"
  unhandled :: "exn option"

text \<open>\<open>elapsed\<close> is \<^verbatim>\<open>cycle_duration\<close>. With \<^verbatim>\<open>"error" in system_state\<close> the pass is
  \<^verbatim>\<open>time.sleep(self.config['monitor_interval']); continue\<close>.\<close>

definition run_cycle :: "config \<Rightarrow> os_env \<Rightarrow> (string \<times> pyval) list \<Rightarrow> rat \<Rightarrow> cycle" where
  "run_cycle cfg env state elapsed =
     (if map_of state ''error'' \<noteq> None
      then \<lparr>sleep_seconds = of_int (monitor_interval cfg), sleep_interruptible = False,
            cycle_diagnostics = None, cycle_healing = None, unhandled = None\<rparr>
      else
        let d = diagnose_system cfg env state;
            h = (if overall_status d \<noteq> ''NOMINAL'' then Some (perform_self_healing cfg env d)
                 else None)
        in \<lparr>sleep_seconds = max 1 (of_int (monitor_interval cfg) - elapsed),
             sleep_interruptible = True,
             cycle_diagnostics = Some d, cycle_healing = h,
             unhandled = (case h of Some (Inl e) \<Rightarrow> Some e | _ \<Rightarrow> None)\<rparr>)"

section \<open>Notions used to state the properties of the loop\<close>

text \<open>What the loop of \<open>diagnose_system\<close> stores for a check applied to its input (the
  returned result, or the \<^verbatim>\<open>DIAG_ERROR\<close> result when the check raises), and whether the
  check ends the loop (it returns, and its status is \<^verbatim>\<open>ERROR\<close>).\<close>

definition check_result :: "(pyval \<Rightarrow> exn + health) \<Rightarrow> pyval \<Rightarrow> health" where
  "check_result f v =
     (case f v of
        Inr r \<Rightarrow> r
      | Inl e \<Rightarrow> create_health_result ''ERROR''
                   [\<lparr>i_type = ''DIAG_ERROR'', i_value = None, i_description = Text (exn_text e)\<rparr>])"

definition breaks :: "(pyval \<Rightarrow> exn + health) \<Rightarrow> pyval \<Rightarrow> bool" where
  "breaks f v = (case f v of Inr r \<Rightarrow> status r = ''ERROR'' | Inl e \<Rightarrow> False)"

text \<open>The domains the loop evaluates on a snapshot, with what it stores for each: every
  check up to and including the first one that ends the loop.\<close>

fun evaluated ::
  "(string \<times> (pyval \<Rightarrow> exn + health)) list \<Rightarrow> (string \<times> pyval) list \<Rightarrow> (string \<times> health) list" where
  "evaluated [] state = []"
| "evaluated ((k, f) # rest) state =
     (k, check_result f (state_get state k)) #
     (if breaks f (state_get state k) then [] else evaluated rest state)"



section \<open>Inputs used in the evaluations\<close>

text \<open>A snapshot whose \<^verbatim>\<open>cpu\<close> reading is malformed (the percentage is a string),
  whose memory use is 99 percent and whose other domains are healthy.\<close>

definition snapshot_cpu_fault :: "(string \<times> pyval) list" where
  "snapshot_cpu_fault =
     [(''cpu'', PDict [(''percent'', PStr ''n/a'')]),
      (''memory'', PDict [(''virtual_percent'', PFloat 99)]),
      (''disk'', PDict [(''percent'', PFloat 50)]),
      (''processes'', PDict [(''zombie'', PInt 0)]),
      (''network'', PDict [(''network_counters'', PDict [])]),
      (''temperature'', PDict [(''coretemp_0_sensor'', PFloat 50)])]"

text \<open>The default configuration with CPU self-healing switched on.\<close>

definition cpu_heal_config :: config where
  "cpu_heal_config = default_config\<lparr>self_heal_cpu_enabled := True\<rparr>"

text \<open>CPU self-healing switched on with the self-heal threshold 0, the least value the
  schema admits; and the same with the empty string as the only excluded name.\<close>

definition eager_config :: config where
  "eager_config = default_config\<lparr>self_heal_cpu_enabled := True, self_heal_cpu_threshold := 0\<rparr>"

definition eager_config_anon :: config where
  "eager_config_anon = eager_config\<lparr>self_heal_cpu_exclude_procs := [[]]\<rparr>"

text \<open>What \<^verbatim>\<open>_diagnose_cpu\<close> returns for 99 percent under the default threshold.\<close>

definition cpu_critical :: health where
  "cpu_critical =
     \<lparr>status = ''CRITICAL'',
      issues = [\<lparr>i_type = ''HIGH_CPU'', i_value = Some (PFloat 99),
                 i_description = Fmt ''> {}%'' [PFloat 85]\<rparr>]\<rparr>"

text \<open>Three busy processes of an ordinary user, started long ago: one with an empty
  name, one named \<^verbatim>\<open>SSHD\<close>, one named \<^verbatim>\<open>stress\<close>; and the hosts running them.\<close>

definition p_anon :: pinfo where
  "p_anon = \<lparr>p_pid = 4242, p_name = Some [], p_cpu_percent = Some 99,
             p_username = Some ''bob'', p_create_time = Some 0\<rparr>"

definition p_sshd :: pinfo where
  "p_sshd = \<lparr>p_pid = 811, p_name = Some ''SSHD'', p_cpu_percent = Some 99,
             p_username = Some ''bob'', p_create_time = Some 0\<rparr>"

definition p_stress :: pinfo where
  "p_stress = \<lparr>p_pid = 4243, p_name = Some ''stress'', p_cpu_percent = Some 98,
               p_username = Some ''bob'', p_create_time = Some 0\<rparr>"

definition host_anon :: os_env where
  "host_anon = host_quiet\<lparr>process_iter := Inr [p_anon]\<rparr>"

definition host_busy :: os_env where
  "host_busy = host_quiet\<lparr>process_iter := Inr [p_stress, p_sshd]\<rparr>"

text \<open>An agent before its first cycle, the readings of a healthy host, and the same
  readings with \<^verbatim>\<open>psutil.cpu_percent\<close> failing.\<close>

definition agent0 :: agent where
  "agent0 = \<lparr>last_net_io_counters = None, last_net_collection_time = None\<rparr>"

definition rd_ok :: readings where
  "rd_ok =
     \<lparr>r_timestamp = ''2025-01-01T00:00:00'',
      r_cpu_percent = Inr 12,
      r_cpu_details =
        Inr \<lparr>percent_user = 5, percent_system = 2, percent_idle = 93, percent_wait = 0,
             cores_logical = Some 4, cores_physical = Some 2, load_avg = (1/2, 1/2, 1/2)\<rparr>,
      r_memory =
        Inr \<lparr>mem_total = 8589934592, mem_available = 4294967296, mem_percent = 50,
             swap_total = 0, swap_used = 0, swap_percent = 0\<rparr>,
      r_disk =
        Inr \<lparr>disk_total = 107374182400, disk_used = 42949672960, disk_free = 64424509440,
             disk_percent = 40, disk_io = None\<rparr>,
      r_monotonic = 100,
      r_net_io =
        Inr \<lparr>bytes_sent = 1000, bytes_recv = 2000, packets_sent = 10, packets_recv = 20,
             errin = 0, errout = 0, dropin = 0, dropout = 0\<rparr>,
      r_net_connections = Inr (3, 7),
      r_pids = Inr 120,
      r_zombies = Inr 0,
      r_temperatures = [(''coretemp_0_sensor'', 45)],
      r_uptime = Inr 3600\<rparr>"




section \<open>Properties\<close>

subsection \<open>Severity\<close>

text \<open>
  C9. Appending an issue with \<open>add_issue\<close>, whatever its severity string, never lowers
  the rank of the result's status: the status after the append ranks at least as high as
  the status before it (ranks as given by the code's \<open>sev_map\<close>, unknown strings
  ranking 0 as in \<^verbatim>\<open>sev_map.get(s, 0)\<close>).
\<close>

theorem add_issue_monotone:
  "sev_get (status h) \<le> sev_get (status (add_issue h ty val desc sev))"
  by (simp add: add_issue_def Let_def)

subsection \<open>Command executor\<close>

lemma prepare_false: "prepare_command host_exit1 [''false''] False False = Inr (Inr [''/bin/false''])"
  by (simp add: prepare_command_def host_exit1_def host_quiet_def host_which_def no_path_def)


lemma launch_exit1: "launch host_exit1 cl sh inp t = Exited 1 ''partial out'' ''boom''"
  by (simp add: host_exit1_def host_quiet_def)




lemma strip_boom: "strip ''boom'' = ''boom''"
  by (simp add: strip_def is_space_def)

text \<open>
  C7, as stated, fails: with \<open>check\<close> requested, a child that exits with code 1 does
  not make \<open>run_subprocess\<close> raise. The \<^verbatim>\<open>CalledProcessError\<close> raised in the
  \<^verbatim>\<open>try\<close> body is caught by the method's own \<^verbatim>\<open>except\<close> clause, and the caller
  receives the soft result \<^verbatim>\<open>(False, stderr)\<close>.
\<close>

theorem run_subprocess_check_counterexample:
  "run_subprocess host_exit1 [''false''] True False False None 60 =
     Inr \<lparr>succeeded = False, out_text = ''boom'', child_killed = False\<rparr>"
  by (simp add: run_subprocess_def prepare_false launch_exit1 try_body_def handlers_def
      returns_def strip_boom)

text \<open>
  C7, amended. For every invocation with \<open>check\<close> requested whose command resolves
  and whose child exits with return code \<open>rc\<close>: the executor returns to its caller and
  raises nothing; a zero return code yields success with the combined output, a non-zero
  one yields the soft failure \<^verbatim>\<open>succeeded = False\<close> whose text is the child's stripped
  stderr.
\<close>

theorem run_subprocess_check:
  assumes "prepare_command env cmds sudo shell = Inr (Inr cl)"
    and "launch env cl shell inp tmo = Exited rc out err"
  shows "run_subprocess env cmds True sudo shell inp tmo =
     Inr (returns (rc = 0) (if rc = 0 then combined_output out err else strip err))"
  using assms by (simp add: run_subprocess_def try_body_def handlers_def)

theorem run_subprocess_check_witness:
  "prepare_command host_exit1 [''false''] False False = Inr (Inr [''/bin/false'']) \<and>
   launch host_exit1 [''/bin/false''] False None 60 = Exited 1 ''partial out'' ''boom'' \<and>
   run_subprocess host_exit1 [''false''] True False False None 60 = Inr (returns False ''boom'')"
proof -
  have l: "launch host_exit1 [''/bin/false''] False None 60 = Exited 1 ''partial out'' ''boom''"
    by (simp add: host_exit1_def host_quiet_def)
  from run_subprocess_check [OF prepare_false l] show ?thesis
    using l by (simp add: prepare_false strip_boom)
qed




subsection \<open>Dictionaries\<close>

lemma map_of_setitem: "map_of (setitem kvs k v) k' = (if k' = k then Some v else map_of kvs k')"
  by (induction kvs k v rule: setitem.induct) auto

lemma setitem_fresh: "k \<notin> fst ` set kvs \<Longrightarrow> setitem kvs k v = kvs @ [(k, v)]"
  by (induction kvs k v rule: setitem.induct) auto

subsection \<open>Issues and their types\<close>

lemma status_add_issue:
  "status (add_issue h ty v d sev) = (if sev_get sev > sev_get (status h) then sev else status h)"
  by (simp add: add_issue_def Let_def)

lemma issues_add_issue:
  "issues (add_issue h ty v d sev) =
     issues h @ [\<lparr>i_type = ty, i_value = Some v, i_description = d\<rparr>]"
  by (simp add: add_issue_def Let_def)

lemma next_value_none:
  "list_all (\<lambda>i. i_type i \<noteq> ''HIGH_CPU_USAGE'') xs \<Longrightarrow> next_value xs = Inr (PInt 0)"
  by (induction xs) auto

lemma check_above_types:
  assumes "check_above h s k t ty desc sev = Inr h'" "ty \<noteq> ''HIGH_CPU_USAGE''"
    "list_all (\<lambda>i. i_type i \<noteq> ''HIGH_CPU_USAGE'') (issues h)"
  shows "list_all (\<lambda>i. i_type i \<noteq> ''HIGH_CPU_USAGE'') (issues h')"
  using assms
  by (auto simp: check_above_def ebind_def issues_add_issue split: sum.splits if_splits)

lemma diagnose_cpu_types:
  assumes "diagnose_cpu cfg s = Inr h"
  shows "list_all (\<lambda>i. i_type i \<noteq> ''HIGH_CPU_USAGE'') (issues h)"
proof (cases "truthy s")
  case False
  with assms show ?thesis
    by (auto simp: diagnose_cpu_def Let_def create_health_result_def issues_add_issue)
next
  case True
  with assms obtain h1 where h1:
    "check_above (create_health_result ''NOMINAL'' []) s ''percent'' (cpu_threshold cfg)
       ''HIGH_CPU'' (Fmt ''> {}%'' [PFloat (cpu_threshold cfg)]) ''CRITICAL'' = Inr h1"
    by (auto simp: diagnose_cpu_def Let_def ebind_def split: sum.splits)
  have t1: "list_all (\<lambda>i. i_type i \<noteq> ''HIGH_CPU_USAGE'') (issues h1)"
    by (rule check_above_types[OF h1]) (simp_all add: create_health_result_def)
  from assms True h1 t1 show ?thesis
    by (auto simp: diagnose_cpu_def Let_def ebind_def issues_add_issue
        split: sum.splits if_splits)
qed

subsection \<open>Supervisor loop\<close>

text \<open>
  C6. The claim asks for a retry delay shorter than the monitor interval when the
  snapshot carries a collection error. The code's comment says \<^verbatim>\<open>Short sleep on error\<close>,
  but the statement is \<^verbatim>\<open>time.sleep(self.config['monitor_interval'])\<close>: for every
  snapshot with the key \<^verbatim>\<open>"error"\<close> the pass skips diagnostics and healing and sleeps
  exactly the full monitor interval, which is not shorter than the interval.
\<close>

theorem run_cycle_error_delay:
  "sleep_seconds (run_cycle cfg env (setitem state ''error'' v) elapsed)
     = of_int (monitor_interval cfg) \<and>
   \<not> sleep_seconds (run_cycle cfg env (setitem state ''error'' v) elapsed)
       < of_int (monitor_interval cfg) \<and>
   cycle_diagnostics (run_cycle cfg env (setitem state ''error'' v) elapsed) = None \<and>
   cycle_healing (run_cycle cfg env (setitem state ''error'' v) elapsed) = None"
  by (simp add: run_cycle_def map_of_setitem)

subsection \<open>CPU mitigation\<close>

text \<open>
  C3. The claim expects \<open>heal_cpu\<close> to act when the cpu diagnostics hold a high-CPU
  issue above the self-heal threshold. \<open>diagnose_cpu\<close> records that issue under the
  type \<^verbatim>\<open>HIGH_CPU\<close>, while \<open>heal_cpu\<close> searches for \<^verbatim>\<open>HIGH_CPU_USAGE\<close>, finds
  nothing and compares the default 0 with the threshold. So for every health result that
  \<open>diagnose_cpu\<close> returns and every positive threshold, \<open>heal_cpu\<close> selects no
  process and returns no action.
\<close>

theorem heal_cpu_never_fires:
  assumes "diagnose_cpu cfg s = Inr h" and "0 < self_heal_cpu_threshold cfg"
  shows "heal_cpu cfg env h = Inr ([], PNone)"
  using next_value_none[OF diagnose_cpu_types[OF assms(1)]] assms(2)
  by (simp add: heal_cpu_def ebind_def py_lt_def num_of_def)

lemma diagnose_cpu_99:
  "diagnose_cpu cpu_heal_config (PDict [(''percent'', PFloat 99)]) =
     Inr \<lparr>status = ''CRITICAL'',
          issues = [\<lparr>i_type = ''HIGH_CPU'', i_value = Some (PFloat 99),
                     i_description = Fmt ''> {}%'' [PFloat 85]\<rparr>]\<rparr>"
  by (simp add: diagnose_cpu_def cpu_heal_config_def default_config_def check_above_def
      ebind_def dict_get_def getitem_def py_gt_def num_of_def truthy_def index0_def
      create_health_result_def add_issue_def sev_get_def sev_map_def Let_def)

theorem heal_cpu_never_fires_witness:
  "diagnose_cpu cpu_heal_config (PDict [(''percent'', PFloat 99)]) =
     Inr \<lparr>status = ''CRITICAL'',
          issues = [\<lparr>i_type = ''HIGH_CPU'', i_value = Some (PFloat 99),
                     i_description = Fmt ''> {}%'' [PFloat 85]\<rparr>]\<rparr> \<and>
   self_heal_cpu_enabled cpu_heal_config \<and>
   self_heal_cpu_threshold cpu_heal_config = 95 \<and>
   heal_cpu cpu_heal_config host_quiet
     \<lparr>status = ''CRITICAL'',
      issues = [\<lparr>i_type = ''HIGH_CPU'', i_value = Some (PFloat 99),
                 i_description = Fmt ''> {}%'' [PFloat 85]\<rparr>]\<rparr> = Inr ([], PNone)"
proof -
  have t: "0 < self_heal_cpu_threshold cpu_heal_config"
    by (simp add: cpu_heal_config_def default_config_def)
  from heal_cpu_never_fires [OF diagnose_cpu_99 t, of host_quiet] show ?thesis
    by (simp add: diagnose_cpu_99) (simp add: cpu_heal_config_def default_config_def)
qed

subsection \<open>Configuration validator\<close>

lemma map_of_validated:
  "map_of (map (\<lambda>(key, sch). (key, F key sch)) xs) k = map_option (F k) (map_of xs k)"
  by (induction xs) auto

lemma cfg_get_setitem: "cfg_get (setitem d k v) k' = (if k' = k then v else cfg_get d k')"
  by (simp add: cfg_get_def map_of_setitem)

lemma validated_field:
  assumes "map_of CONFIG_SCHEMA k = Some sch"
    and "k \<noteq> ''email_alerts_enabled''" "k \<noteq> ''ollama_enabled''"
    and "k \<noteq> ''self_heal_cpu_exclude_procs''"
  shows "cfg_get (load_and_validate_config lower upper av loaded) k =
     validate_field upper (defaults av)
       (case loaded of None \<Rightarrow> defaults av | Some l \<Rightarrow> dict_update (defaults av) l) k sch"
  using assms
  by (simp add: load_and_validate_config_def Let_def cfg_get_setitem)
     (simp add: cfg_get_def map_of_validated)

lemma schema_cpu_threshold:
  "map_of CONFIG_SCHEMA ''cpu_threshold'' = Some (entry TFloat (Some 0) (Some 100))"
  by (simp add: CONFIG_SCHEMA_def)

text \<open>
  C2. The claim requires every validated field to respect its declared minimum and
  maximum. The range tests are \<^verbatim>\<open>elif\<close> branches of the type test, so an int given for
  a float setting passes the special case and is never compared with the bounds: the
  schema declares the range 0 to 100 for \<^verbatim>\<open>cpu_threshold\<close>, yet for every int \<open>i\<close>
  the raw input \<^verbatim>\<open>{"cpu_threshold": i}\<close> yields the validated value \<open>i\<close>
  (500, say, or -5).
\<close>

theorem validate_int_for_float_unchecked:
  "map_of CONFIG_SCHEMA ''cpu_threshold'' = Some (entry TFloat (Some 0) (Some 100)) \<and>
   cfg_get (load_and_validate_config lower upper av (Some [(''cpu_threshold'', PInt i)]))
     ''cpu_threshold'' = PInt i"
  by (simp add: validated_field[OF schema_cpu_threshold] schema_cpu_threshold)
     (simp add: validate_field_def dict_update_def cfg_get_setitem field_valid_def entry_def
        isinstance_def)

subsection \<open>Diagnostic engine\<close>

text \<open>
  C1. The claim has an \<^verbatim>\<open>ERROR\<close> domain end the evaluation with the overall status
  \<^verbatim>\<open>ERROR\<close>. A check that returns \<^verbatim>\<open>ERROR\<close> does (\<^verbatim>\<open>break\<close>), but a check
  that raises is recorded as \<^verbatim>\<open>ERROR\<close> by an \<^verbatim>\<open>except\<close> clause without
  \<^verbatim>\<open>break\<close>. On the snapshot \<open>snapshot_cpu_fault\<close> the cpu domain is \<^verbatim>\<open>ERROR\<close>,
  all five later domains are still evaluated, and the \<^verbatim>\<open>CRITICAL\<close> of memory overrides
  the overall status, which ends below the maximum over the domains.
\<close>

theorem diagnose_system_error_overridden:
  "overall_status (diagnose_system default_config host_quiet snapshot_cpu_fault) = ''CRITICAL'' \<and>
   map (\<lambda>(k, h). (k, status h))
     (checks (diagnose_system default_config host_quiet snapshot_cpu_fault)) =
     [(''cpu'', ''ERROR''), (''memory'', ''CRITICAL''), (''disk'', ''NOMINAL''),
      (''processes'', ''NOMINAL''), (''network'', ''NOMINAL''), (''temperature'', ''NOMINAL'')]"
  by code_simp

subsection \<open>Exclusion list of the CPU mitigation\<close>

lemma kill_loop_sel:
  "kill_loop cfg env exclude ps i sel killed = (sel', r) \<Longrightarrow>
   list_all (\<lambda>p. proc_name env p \<notin> exclude) sel \<Longrightarrow>
   list_all (\<lambda>p. proc_name env p \<notin> exclude) sel'"
  by (induction cfg env exclude ps i sel killed rule: kill_loop.induct)
     (auto split: if_splits option.splits sum.splits)

lemma heal_cpu_busy:
  "heal_cpu eager_config host_busy cpu_critical =
     Inr ([p_stress],
          PDict [(''action'', PStr ''MITIGATE_CPU_PRESSURE''),
                 (''killed_pids'', PList [PInt 4243]),
                 (''status'', PStr ''ATTEMPTED''), (''killed_count'', PInt 1)])"
  by code_simp

text \<open>
  C10, as stated, fails for a process without a name of its own: the loop compares
  \<^verbatim>\<open>(pinfo['name'] or 'unknown').lower()\<close> with the exclusion set, so a process whose
  name is the empty string is looked up as \<^verbatim>\<open>unknown\<close>. With the exclusion list
  \<^verbatim>\<open>[""]\<close> the process \<open>p_anon\<close>, whose name equals that entry, is selected and
  killed.
\<close>

theorem heal_cpu_excluded_counterexample:
  "heal_cpu eager_config_anon host_anon cpu_critical =
     Inr ([p_anon],
          PDict [(''action'', PStr ''MITIGATE_CPU_PRESSURE''),
                 (''killed_pids'', PList [PInt 4242]),
                 (''status'', PStr ''ATTEMPTED''), (''killed_count'', PInt 1)]) \<and>
   p_name p_anon = Some [] \<and>
   self_heal_cpu_exclude_procs eager_config_anon = [[]]"
  by code_simp

text \<open>
  C10, amended. For every configuration, host and cpu diagnostics, and whatever the
  interpreter's \<^verbatim>\<open>str.lower()\<close> is, no process that \<open>heal_cpu\<close> selects for
  termination has a name that equals, after \<^verbatim>\<open>str.lower()\<close> of both, an entry of the
  configured exclusion list, where a missing or empty process name is read as
  \<^verbatim>\<open>unknown\<close>; the CPU share of the process plays no part.
\<close>

theorem heal_cpu_excluded:
  assumes "heal_cpu cfg env h = Inr (sel, a)" and "p \<in> set sel"
    and "e \<in> set (self_heal_cpu_exclude_procs cfg)"
  shows "str_lower env (name_or_unknown p) \<noteq> str_lower env e"
proof -
  have "list_all (\<lambda>p. proc_name env p \<notin>
                    set (map (str_lower env) (self_heal_cpu_exclude_procs cfg))) sel"
    using assms(1)
    by (auto simp: heal_cpu_def ebind_def Let_def failed_action_def
        split: if_splits sum.splits prod.splits dest: kill_loop_sel)
  with assms(2,3) show ?thesis
    by (auto simp: list_all_iff proc_name_def)
qed

theorem heal_cpu_excluded_witness:
  "heal_cpu eager_config host_busy cpu_critical =
     Inr ([p_stress],
          PDict [(''action'', PStr ''MITIGATE_CPU_PRESSURE''),
                 (''killed_pids'', PList [PInt 4243]),
                 (''status'', PStr ''ATTEMPTED''), (''killed_count'', PInt 1)]) \<and>
   p_stress \<in> set [p_stress] \<and>
   ''sshd'' \<in> set (self_heal_cpu_exclude_procs eager_config) \<and>
   str_lower host_busy (name_or_unknown p_stress) \<noteq> str_lower host_busy ''sshd''"
proof -
  have m: "p_stress \<in> set [p_stress]" by simp
  have e: "''sshd'' \<in> set (self_heal_cpu_exclude_procs eager_config)"
    by (simp add: eager_config_def default_config_def)
  from heal_cpu_excluded [OF heal_cpu_busy m e] show ?thesis
    using heal_cpu_busy e by simp
qed

subsection \<open>The loop of the diagnostic engine\<close>

lemma checks_loop:
  "distinct (map fst fs) \<Longrightarrow> fst ` set (checks d) \<inter> fst ` set fs = {} \<Longrightarrow>
   checks (fst (diagnose_loop fs state (d, iss))) = checks d @ evaluated fs state"
proof (induction fs arbitrary: d iss)
  case Nil
  then show ?case by simp
next
  case (Cons a fs)
  obtain k f where a: "a = (k, f)" by (cases a)
  from Cons.prems a have fresh: "k \<notin> fst ` set (checks d)" by auto
  from Cons.prems a have dist: "distinct (map fst fs)" and knew: "k \<notin> fst ` set fs" by auto
  have disj: "\<And>r. fst ` set (checks d @ [(k, r)]) \<inter> fst ` set fs = {}"
    using Cons.prems a knew by auto
  show ?case
  proof (cases "f (state_get state k)")
    case (Inl e)
    then show ?thesis
      using Cons.IH[OF dist, of "d\<lparr>checks := checks d @ [(k, check_result f (state_get state k))], overall_status := ''ERROR''\<rparr>" True] disj
      by (simp add: a setitem_fresh[OF fresh] check_result_def breaks_def Let_def)
  next
    case (Inr r)
    then show ?thesis
      using Cons.IH[OF dist, of "d\<lparr>checks := checks d @ [(k, r)], overall_status := ''CRITICAL''\<rparr>" True]
        Cons.IH[OF dist, of "d\<lparr>checks := checks d @ [(k, r)], overall_status := ''WARNING''\<rparr>" True]
        Cons.IH[OF dist, of "d\<lparr>checks := checks d @ [(k, r)]\<rparr>" iss] disj
      by (simp add: a setitem_fresh[OF fresh] check_result_def breaks_def Let_def)
  qed
qed

lemma overall_loop_break:
  "list_ex (\<lambda>(k, f). breaks f (state_get state k)) fs \<Longrightarrow>
   overall_status (fst (diagnose_loop fs state (d, iss))) = ''ERROR''"
proof (induction fs arbitrary: d iss)
  case Nil
  then show ?case by simp
next
  case (Cons a fs)
  obtain k f where a: "a = (k, f)" by (cases a)
  show ?case
  proof (cases "breaks f (state_get state k)")
    case True
    then show ?thesis by (auto simp: a breaks_def Let_def split: sum.splits)
  next
    case False
    with Cons.prems a have "list_ex (\<lambda>(k, f). breaks f (state_get state k)) fs" by simp
    from Cons.IH[OF this] False show ?thesis
      by (auto simp: a breaks_def Let_def split: sum.splits)
  qed
qed

lemma checks_diagnose_system:
  "checks (diagnose_system cfg env state) = evaluated (diag_funcs cfg env) state"
  using checks_loop[of "diag_funcs cfg env" "\<lparr>overall_status = ''NOMINAL'', checks = []\<rparr>" state False]
  by (simp add: diagnose_system_def) (simp add: diag_funcs_def)

text \<open>
  When no check raises and none returns \<^verbatim>\<open>ERROR\<close>, the overall status ranks as the
  maximum over the domain results (and the initial \<^verbatim>\<open>NOMINAL\<close>); together with
  \<open>overall_loop_break\<close> and \<open>checks_loop\<close> this is the aggregation rule for the
  snapshots on which no check raises.
\<close>

lemma sev_get_known:
  "sev_get ''NOMINAL'' = 0" "sev_get ''WARNING'' = 1" "sev_get ''CRITICAL'' = 2" "sev_get ''ERROR'' = 3"
  by (simp_all add: sev_get_def sev_map_def)

lemma overall_loop_max:
  assumes "list_all (\<lambda>(k, f). case f (state_get state k) of Inl e \<Rightarrow> False
                                 | Inr r \<Rightarrow> status r = ''NOMINAL'' \<or> status r = ''WARNING'' \<or> status r = ''CRITICAL'') fs"
    and "overall_status d = ''NOMINAL'' \<or> overall_status d = ''WARNING'' \<or> overall_status d = ''CRITICAL''"
  shows "sev_get (overall_status (fst (diagnose_loop fs state (d, iss)))) =
           fold (\<lambda>(k, f) m. max m (sev_get (status (check_result f (state_get state k))))) fs
             (sev_get (overall_status d))"
  using assms
proof (induction fs arbitrary: d iss)
  case Nil
  then show ?case by simp
next
  case (Cons a fs)
  obtain k f where a: "a = (k, f)" by (cases a)
  from Cons.prems(1) a obtain r where r: "f (state_get state k) = Inr r"
    and sr: "status r = ''NOMINAL'' \<or> status r = ''WARNING'' \<or> status r = ''CRITICAL''"
    and rest: "list_all (\<lambda>(k, f). case f (state_get state k) of Inl e \<Rightarrow> False
                                 | Inr r \<Rightarrow> status r = ''NOMINAL'' \<or> status r = ''WARNING'' \<or> status r = ''CRITICAL'') fs"
    by (auto split: sum.splits)
  have cr: "check_result f (state_get state k) = r" by (simp add: check_result_def r)
  show ?case
    using sr Cons.prems(2)
      Cons.IH[OF rest, of "d\<lparr>checks := setitem (checks d) k r, overall_status := ''CRITICAL''\<rparr>" True]
      Cons.IH[OF rest, of "d\<lparr>checks := setitem (checks d) k r, overall_status := ''WARNING''\<rparr>" True]
      Cons.IH[OF rest, of "d\<lparr>checks := setitem (checks d) k r\<rparr>" iss]
    by (auto simp: a r cr Let_def sev_get_known max_def)
qed

lemma network_missing:
  "diagnose_network cfg env PNone =
     Inr \<lparr>status = ''ERROR'',
          issues = [\<lparr>i_type = ''MISSING'', i_value = Some (PInt 0),
                     i_description = Text ''Net data(Collection Error)''\<rparr>]\<rparr>"
  by (simp add: diagnose_network_def create_health_result_def add_issue_def sev_get_def
      sev_map_def Let_def)

lemma network_breaks: "breaks (diagnose_network cfg env) PNone"
  by (simp add: breaks_def network_missing)

lemma overall_without_network:
  assumes "state_get state ''network'' = PNone"
  shows "overall_status (diagnose_system cfg env state) = ''ERROR''"
  unfolding diagnose_system_def
  by (rule overall_loop_break) (simp add: diag_funcs_def assms network_breaks)

lemma temperature_not_evaluated:
  assumes "state_get state ''network'' = PNone"
  shows "map_of (checks (diagnose_system cfg env state)) ''temperature'' = None"
  by (simp add: checks_diagnose_system diag_funcs_def assms network_breaks)

lemma check_above_status:
  "check_above h s k t ty desc sev = Inr h' \<Longrightarrow> status h \<noteq> ''ERROR'' \<Longrightarrow> sev \<noteq> ''ERROR'' \<Longrightarrow>
   status h' \<noteq> ''ERROR''"
  by (auto simp: check_above_def ebind_def status_add_issue split: sum.splits if_splits)

lemma not_breaks_cpu: "truthy s \<Longrightarrow> \<not> breaks (diagnose_cpu cfg) s"
  by (auto simp: breaks_def diagnose_cpu_def Let_def ebind_def create_health_result_def
      status_add_issue split: sum.splits if_splits dest!: check_above_status)

lemma not_breaks_memory: "truthy s \<Longrightarrow> \<not> breaks (diagnose_memory cfg) s"
  by (auto simp: breaks_def diagnose_memory_def Let_def ebind_def create_health_result_def
      split: sum.splits if_splits dest!: check_above_status)

lemma not_breaks_disk: "truthy s \<Longrightarrow> \<not> breaks (diagnose_disk cfg) s"
  by (auto simp: breaks_def diagnose_disk_def Let_def ebind_def create_health_result_def
      split: sum.splits if_splits dest!: check_above_status)

lemma not_breaks_processes: "truthy s \<Longrightarrow> \<not> breaks (diagnose_processes cfg) s"
  by (auto simp: breaks_def diagnose_processes_def Let_def ebind_def create_health_result_def
      split: sum.splits if_splits dest!: check_above_status)

lemma network_evaluated:
  assumes "truthy (state_get state ''cpu'')" "truthy (state_get state ''memory'')"
    "truthy (state_get state ''disk'')" "truthy (state_get state ''processes'')"
  shows "map_of (checks (diagnose_system cfg env state)) ''network'' =
           Some (check_result (diagnose_network cfg env) (state_get state ''network''))"
  using assms
  by (simp add: checks_diagnose_system diag_funcs_def not_breaks_cpu not_breaks_memory
      not_breaks_disk not_breaks_processes)

subsection \<open>Snapshots built by the collector\<close>

lemmas gss_unfold = get_system_state_def Let_def with_error_def map_of_setitem state_get_def
  truthy_def cpu_dict_def memory_dict_def disk_dict_def

lemma snapshot_shape:
  "map_of (fst (get_system_state ag rd)) ''network'' = None \<and>
   map_of (fst (get_system_state ag rd)) ''temperature'' = None \<and>
   (map_of (fst (get_system_state ag rd)) ''error'' = None \<or>
    map_of (fst (get_system_state ag rd)) ''processes'' \<noteq> None \<longrightarrow>
      truthy (state_get (fst (get_system_state ag rd)) ''cpu'') \<and>
      truthy (state_get (fst (get_system_state ag rd)) ''memory'') \<and>
      truthy (state_get (fst (get_system_state ag rd)) ''disk'') \<and>
      truthy (state_get (fst (get_system_state ag rd)) ''processes''))"
proof -
  note setitem.simps [simp del]
  define P where "P = (\<lambda>st. map_of st ''network'' = None \<and> map_of st ''temperature'' = None \<and>
   (map_of st ''error'' = None \<or> map_of st ''processes'' \<noteq> None \<longrightarrow>
      truthy (state_get st ''cpu'') \<and> truthy (state_get st ''memory'') \<and>
      truthy (state_get st ''disk'') \<and> truthy (state_get st ''processes'')))"
  have "P (fst (get_system_state ag rd))"
  proof (cases "r_cpu_percent rd")
    case (Inl e)
    then show ?thesis by (simp add: gss_unfold P_def)
  next
    case a1: (Inr p)
    show ?thesis
    proof (cases "r_cpu_details rd")
      case (Inl e)
      with a1 show ?thesis by (simp add: gss_unfold P_def)
    next
      case a2: (Inr c)
      show ?thesis
      proof (cases "r_memory rd")
        case (Inl e)
        with a1 a2 show ?thesis by (simp add: gss_unfold P_def)
      next
        case a3: (Inr m)
        show ?thesis
        proof (cases "r_disk rd")
          case (Inl e)
          with a1 a2 a3 show ?thesis by (simp add: gss_unfold P_def)
        next
          case a4: (Inr d)
          show ?thesis
          proof (cases "r_net_io rd")
            case (Inl e)
            with a1 a2 a3 a4 show ?thesis by (simp add: gss_unfold P_def)
          next
            case a5: (Inr n)
            show ?thesis
            proof (cases "r_pids rd")
              case (Inl e)
              with a1 a2 a3 a4 a5 show ?thesis by (simp add: gss_unfold P_def)
            next
              case a6: (Inr np)
              show ?thesis
              proof (cases "r_zombies rd")
                case a7: (Inl e)
                show ?thesis
                proof (cases "r_uptime rd")
                  case (Inl e')
                  with a1 a2 a3 a4 a5 a6 a7 show ?thesis by (simp add: gss_unfold P_def)
                next
                  case (Inr up)
                  with a1 a2 a3 a4 a5 a6 a7 show ?thesis by (simp add: gss_unfold P_def)
                qed
              next
                case a7: (Inr z)
                show ?thesis
                proof (cases "r_uptime rd")
                  case (Inl e')
                  with a1 a2 a3 a4 a5 a6 a7 show ?thesis by (simp add: gss_unfold P_def)
                next
                  case (Inr up)
                  with a1 a2 a3 a4 a5 a6 a7 show ?thesis by (simp add: gss_unfold P_def)
                qed
              qed
            qed
          qed
        qed
      qed
    qed
  qed
  then show ?thesis by (simp add: P_def)
qed

text \<open>
  C4. No snapshot of \<open>get_system_state\<close> has the key \<^verbatim>\<open>network\<close> (the network data
  are stored under \<^verbatim>\<open>network_rate_kBs\<close>, \<^verbatim>\<open>network_counters\<close> and
  \<^verbatim>\<open>network_connections\<close>, the temperatures under \<^verbatim>\<open>temperature_celsius\<close>), so on
  every snapshot it produces the overall status of \<open>diagnose_system\<close> is \<^verbatim>\<open>ERROR\<close>
  and the temperature domain is never evaluated. The supervisor loop runs
  \<open>diagnose_system\<close> only on snapshots without the key \<^verbatim>\<open>error\<close>; on each of these,
  and on every snapshot in which the process data were stored, the network check is
  reached, receives no input, and the network domain is \<^verbatim>\<open>ERROR\<close> with the one
  missing-data issue.
\<close>

theorem diagnose_collected_snapshot:
  assumes "st = fst (get_system_state ag rd)" and "d = diagnose_system cfg env st"
  shows "state_get st ''network'' = PNone \<and>
         overall_status d = ''ERROR'' \<and>
         map_of (checks d) ''temperature'' = None \<and>
         (map_of st ''error'' = None \<or> map_of st ''processes'' \<noteq> None \<longrightarrow>
            map_of (checks d) ''network'' =
              Some \<lparr>status = ''ERROR'',
                    issues = [\<lparr>i_type = ''MISSING'', i_value = Some (PInt 0),
                               i_description = Text ''Net data(Collection Error)''\<rparr>]\<rparr>)"
proof -
  have n: "state_get st ''network'' = PNone"
    using snapshot_shape[of ag rd] by (simp add: assms(1) state_get_def)
  have c: "map_of st ''error'' = None \<or> map_of st ''processes'' \<noteq> None \<longrightarrow>
             map_of (checks d) ''network'' =
               Some (check_result (diagnose_network cfg env) (state_get st ''network''))"
    using snapshot_shape[of ag rd] network_evaluated[of st cfg env]
    by (auto simp: assms)
  from n c overall_without_network[OF n] temperature_not_evaluated[OF n] show ?thesis
    by (simp add: assms(2) check_result_def network_missing)
qed

lemma rd_ok_complete: "map_of (fst (get_system_state agent0 rd_ok)) ''error'' = None"
  by (simp add: gss_unfold rd_ok_def del: setitem.simps)

theorem diagnose_collected_snapshot_witness:
  "map_of (fst (get_system_state agent0 rd_ok)) ''error'' = None \<and>
   state_get (fst (get_system_state agent0 rd_ok)) ''network'' = PNone \<and>
   overall_status (diagnose_system default_config host_quiet (fst (get_system_state agent0 rd_ok)))
     = ''ERROR'' \<and>
   map_of (checks (diagnose_system default_config host_quiet (fst (get_system_state agent0 rd_ok))))
     ''temperature'' = None \<and>
   map_of (checks (diagnose_system default_config host_quiet (fst (get_system_state agent0 rd_ok))))
     ''network'' =
       Some \<lparr>status = ''ERROR'',
             issues = [\<lparr>i_type = ''MISSING'', i_value = Some (PInt 0),
                        i_description = Text ''Net data(Collection Error)''\<rparr>]\<rparr>"
  using diagnose_collected_snapshot [OF refl refl, of agent0 rd_ok default_config host_quiet]
    rd_ok_complete
  by simp

subsection \<open>Healing after a short-circuit\<close>



















end
